theory Spec2Isabelle
  imports Complex_Main "HOL-Library.Word"
begin

unbundle bit_operations_syntax

chapter \<open>IC-7300 web controller: CI-V protocol engine\<close>

text \<open>
  A shallow embedding of \<^verbatim>\<open>src/ic7300.js\<close>. Wire bytes (the elements of a
  \<^verbatim>\<open>Uint8Array\<close>) are \<open>8 word\<close>; JavaScript numbers that hold non-negative integers are
  \<open>nat\<close>; a number that may be \<^verbatim>\<open>NaN\<close> is a \<open>jsnum\<close>; a variable that may be
  \<^verbatim>\<open>null\<close> is an \<open>option\<close>.
\<close>

section \<open>JavaScript primitives used by the codec\<close>

type_synonym byte = "8 word"

datatype jsnum = NaN | Num nat

text \<open>The decimal digit character of a digit value \<open>d < 10\<close>.\<close>

definition digitChar :: "nat \<Rightarrow> char" where
  "digitChar d = char_of (48 + d)"

text \<open>
  \<^verbatim>\<open>Number.prototype.toString()\<close> on a non-negative integer: its decimal numeral without
  leading zeros. (JavaScript switches to exponent notation from \<open>10\<^sup>2\<^sup>1\<close> on; the
  frequencies and nibbles printed here are far below.)
\<close>

function toString :: "nat \<Rightarrow> string" where
  "toString n =
     (if n < 10 then [digitChar n] else toString (n div 10) @ [digitChar (n mod 10)])"
  by pat_completeness auto
termination
  by (relation "measure id") auto

declare toString.simps [simp del]

text \<open>\<^verbatim>\<open>String.prototype.padStart(n, c)\<close> with a one-character filler.\<close>

definition padStart :: "nat \<Rightarrow> char \<Rightarrow> string \<Rightarrow> string" where
  "padStart n c s = replicate (n - length s) c @ s"

text \<open>
  \<^verbatim>\<open>s[k]\<close> as the argument of \<^verbatim>\<open>parseInt\<close>: the one-character string at index \<open>k\<close>.
  Out of range JavaScript yields \<^verbatim>\<open>undefined\<close>, which \<^verbatim>\<open>parseInt\<close> turns into
  \<^verbatim>\<open>NaN\<close> exactly as it does the empty string returned here.
\<close>

definition charAt :: "string \<Rightarrow> nat \<Rightarrow> string" where
  "charAt s k = take 1 (drop k s)"

definition isDigit :: "char \<Rightarrow> bool" where
  "isDigit c = (48 \<le> (of_char c :: nat) \<and> (of_char c :: nat) \<le> 57)"

definition digitVal :: "char \<Rightarrow> nat" where
  "digitVal c = of_char c - 48"

text \<open>
  \<^verbatim>\<open>parseInt(s)\<close> in radix 10: the value of the longest prefix of decimal digits,
  \<^verbatim>\<open>NaN\<close> when that prefix is empty. Leading white space, a sign and the \<^verbatim>\<open>0x\<close>
  prefix are not modelled: every string parsed by the codec is built from the digit
  characters that \<open>toString\<close> emits.
\<close>

definition parseInt :: "string \<Rightarrow> jsnum" where
  "parseInt s =
     (let ds = takeWhile isDigit s
      in if ds = [] then NaN else Num (foldl (\<lambda>a c. a * 10 + digitVal c) 0 ds))"

text \<open>
  The operand conversion of the bitwise operators: \<^verbatim>\<open>NaN\<close> becomes 0. The operands
  that occur are digits and bytes, so the reduction modulo \<open>2\<^sup>3\<^sup>2\<close> is the identity.
\<close>

fun toInt32 :: "jsnum \<Rightarrow> nat" where
  "toInt32 NaN = 0"
| "toInt32 (Num n) = n"

section \<open>Frame codec: packed-decimal frequencies\<close>

text \<open>
  One iteration of the loop of \<^verbatim>\<open>frequencyToBCD\<close>:
  \<^verbatim>\<open>lowDigit = parseInt(freqStr[9 - (i * 2)])\<close>,
  \<^verbatim>\<open>highDigit = parseInt(freqStr[9 - (i * 2) - 1])\<close>,
  \<^verbatim>\<open>bcd.push((highDigit << 4) | lowDigit)\<close>.
\<close>

definition bcdByte :: "string \<Rightarrow> nat \<Rightarrow> nat" where
  "bcdByte freqStr i =
     (let lowDigit = parseInt (charAt freqStr (9 - i * 2));
          highDigit = parseInt (charAt freqStr (9 - i * 2 - 1))
      in push_bit 4 (toInt32 highDigit) OR toInt32 lowDigit)"

definition frequencyToBCD :: "nat \<Rightarrow> nat list" where
  "frequencyToBCD freqHz =
     (let freqStr = padStart 10 (CHR ''0'') (toString freqHz)
      in map (bcdByte freqStr) [0..<5])"

text \<open>
  \<^verbatim>\<open>bcdToFrequency\<close>: the loop runs from the last byte to the first and appends the decimal
  text of the high and of the low nibble; a nibble above 9 prints as two characters.
\<close>

definition bcdToFrequency :: "nat list \<Rightarrow> jsnum" where
  "bcdToFrequency bcd =
     parseInt (foldl (\<lambda>freqStr b. freqStr @ toString (drop_bit 4 b AND 15) @ toString (b AND 15))
                 [] (rev bcd))"

section \<open>Frame codec: frames\<close>

definition CONTROLLER_ADDRESS :: byte where "CONTROLLER_ADDRESS = 0xE0"
definition CMD_READ_FREQ :: byte where "CMD_READ_FREQ = 0x03"
definition CMD_READ_MODE :: byte where "CMD_READ_MODE = 0x04"
definition CMD_WRITE_FREQ :: byte where "CMD_WRITE_FREQ = 0x05"
definition CMD_WRITE_MODE :: byte where "CMD_WRITE_MODE = 0x06"
definition CMD_PTT :: byte where "CMD_PTT = 0x1C"
definition CMD_READ_SMETER :: byte where "CMD_READ_SMETER = 0x15"
definition CMD_READ_OPERATING_STATUS :: byte where "CMD_READ_OPERATING_STATUS = 0x1C"
definition CMD_SEND_CW :: byte where "CMD_SEND_CW = 0x17"

text \<open>
  \<^verbatim>\<open>buildCommand(cmd, data)\<close> with the configured radio address \<^verbatim>\<open>IC7300_ADDRESS\<close> as a
  parameter. The packet is stored into a \<^verbatim>\<open>Uint8Array\<close>, which reduces every number
  modulo 256 (\<open>of_nat\<close>).
\<close>

definition buildCommand :: "byte \<Rightarrow> byte \<Rightarrow> nat list \<Rightarrow> byte list" where
  "buildCommand IC7300_ADDRESS cmd data =
     [0xFE, 0xFE, IC7300_ADDRESS, CONTROLLER_ADDRESS, cmd] @ map of_nat data @ [0xFD]"

text \<open>
  The object returned by \<^verbatim>\<open>parseResponse\<close>. Its properties are called \<^verbatim>\<open>from\<close>,
  \<^verbatim>\<open>to\<close>, \<^verbatim>\<open>cmd\<close> and \<^verbatim>\<open>payload\<close> in the source; the first two carry a suffix here
  because \<open>from\<close> is reserved in Isar.
\<close>

record response =
  from_addr :: byte
  to_addr :: byte
  cmd :: byte
  payload :: "byte list"

text \<open>
  \<^verbatim>\<open>parseResponse(data)\<close>; \<open>None\<close> is the \<^verbatim>\<open>null\<close> it returns for an invalid packet.
  The three guards run in the source's order, so no index is read out of range.
  \<^verbatim>\<open>data.slice(5, -1)\<close> is the part from index 5 up to, not including, the last byte.
\<close>

definition parseResponse :: "byte list \<Rightarrow> response option" where
  "parseResponse data =
     (if length data < 6 then None
      else if data ! 0 \<noteq> 0xFE \<or> data ! 1 \<noteq> 0xFE then None
      else if data ! (length data - 1) \<noteq> 0xFD then None
      else Some \<lparr> from_addr = data ! 2, to_addr = data ! 3, cmd = data ! 4,
                  payload = drop 5 (take (length data - 1) data) \<rparr>)"

section \<open>Frame extractor\<close>

text \<open>
  The backward scan of \<^verbatim>\<open>readLoop\<close>:
  \<^verbatim>\<open>for (let i = buffer.length - 3; i >= 0; i--)
      if (buffer[i] === 0xFE && buffer[i + 1] === 0xFE) { startIdx = i; break; }\<close>
  \<open>scanFrom buffer i\<close> is the loop entered at index \<open>i\<close>; \<open>None\<close> is \<^verbatim>\<open>startIdx = -1\<close>.
\<close>

fun scanFrom :: "byte list \<Rightarrow> nat \<Rightarrow> nat option" where
  "scanFrom buffer 0 =
     (if buffer ! 0 = 0xFE \<and> buffer ! 1 = 0xFE then Some 0 else None)"
| "scanFrom buffer (Suc i) =
     (if buffer ! Suc i = 0xFE \<and> buffer ! (Suc i + 1) = 0xFE then Some (Suc i)
      else scanFrom buffer i)"

definition findStart :: "byte list \<Rightarrow> nat option" where
  "findStart buffer =
     (if length buffer < 3 then None else scanFrom buffer (length buffer - 3))"

text \<open>
  The body of \<^verbatim>\<open>for (let byte of value)\<close>. The extractor hands each packet to
  \<^verbatim>\<open>handleResponse\<close>; here the handler \<open>h\<close> and the state \<open>st\<close> it updates are parameters.
  \<^verbatim>\<open>buffer.splice(startIdx)\<close> removes the elements from \<open>startIdx\<close> to the end and returns
  them: the buffer keeps what came before \<open>startIdx\<close>.
\<close>

definition pushByte ::
  "('s \<Rightarrow> byte list \<Rightarrow> 's) \<Rightarrow> byte list \<times> 's \<Rightarrow> byte \<Rightarrow> byte list \<times> 's" where
  "pushByte h bs byte =
     (let buffer = fst bs @ [byte]; st = snd bs
      in if byte = 0xFD \<and> length buffer \<ge> 6
         then (case findStart buffer of
                 Some startIdx \<Rightarrow> (take startIdx buffer, h st (drop startIdx buffer))
               | None \<Rightarrow> (buffer, st))
         else (buffer, st))"

text \<open>
  One iteration of \<^verbatim>\<open>while (true)\<close>: a chunk (\<^verbatim>\<open>value\<close>) read from the port, then
  \<^verbatim>\<open>if (buffer.length > 100) buffer.splice(0, buffer.length - 50)\<close>.
\<close>

definition readChunk ::
  "('s \<Rightarrow> byte list \<Rightarrow> 's) \<Rightarrow> byte list \<times> 's \<Rightarrow> byte list \<Rightarrow> byte list \<times> 's" where
  "readChunk h bs chunk =
     (let r = foldl (pushByte h) bs chunk; buffer = fst r
      in (if length buffer > 100 then drop (length buffer - 50) buffer else buffer, snd r))"

text \<open>
  \<^verbatim>\<open>readLoop\<close> over the chunks delivered until the reader reports \<^verbatim>\<open>done\<close>, starting
  from the empty buffer.
\<close>

definition readLoop :: "('s \<Rightarrow> byte list \<Rightarrow> 's) \<Rightarrow> 's \<Rightarrow> byte list list \<Rightarrow> byte list \<times> 's" where
  "readLoop h st chunks = foldl (readChunk h) ([], st) chunks"

text \<open>A handler that only collects the packets it is given, in order.\<close>

definition collect :: "byte list list \<Rightarrow> byte list \<Rightarrow> byte list list" where
  "collect out packet = out @ [packet]"

section \<open>Controller state\<close>

text \<open>
  The entries written by \<^verbatim>\<open>log(message, type)\<close>, one constructor for each message the
  modelled functions write, with the data the message text is formatted from.
\<close>

datatype logEntry =
    LogRX "byte list"
  | LogTX "byte list"
  | LogInvalidResponsePacket
  | LogCommandAcknowledged
  | LogCommandRejected
  | LogFrequency jsnum
  | LogMode string
  | LogPttDetected bool
  | LogNotConnected
  | LogNotConnectedToRadio
  | LogEnterCWMessage
  | LogSendingCW string int
  | LogCWMessageSent
  | LogCWTransmissionStopped
  | LogStoppingCW
  | LogPttActivated
  | LogPttReleased

datatype meterMode = rx | tx

datatype signal = dataTerminalReady | requestToSend

text \<open>
  What the controller does to the outside world, in order: a frame written to the serial
  port, a \<^verbatim>\<open>setTimeout\<close> delay awaited (milliseconds), a control line set.
\<close>

datatype action =
    Write "byte list"
  | Delay rat
  | SetSignals signal bool

text \<open>
  One POST issued by \<^verbatim>\<open>sendToWavelog\<close>: when it was issued, the two arguments of the
  call, and the URL and the fields of the JSON body.
\<close>

record wavelogPost =
  postTime :: nat
  argFrequency :: "jsnum option"
  argMode :: "byte option"
  postUrl :: string
  postKey :: string
  postRadio :: string
  postModeName :: string

text \<open>
  The module-level variables of \<^verbatim>\<open>ic7300.js\<close> together with the page elements and
  devices the modelled functions read and write.
  \<^item> \<open>now\<close> is the clock in milliseconds; \<open>wavelogDebounceTimer\<close> holds the time at which
    the pending timeout fires, \<open>None\<close> for \<^verbatim>\<open>null\<close>.
  \<^item> \<open>port\<close> and \<open>writer\<close> tell whether the variable is non-null.
  \<^item> \<open>freqDisplay\<close>, \<open>modeDisplay\<close> hold what the last update of the element was computed
    from; \<open>meter\<close> holds the arguments of the last \<^verbatim>\<open>updateBargraph\<close> call, of which the
    meter label, text and lit segments are a function (computed in floating point, not
    modelled).
  \<^item> \<open>cwKeyLine\<close> is the value of the key-line selector; \<open>cwWPM\<close> is the result of
    \<^verbatim>\<open>parseInt\<close> on the speed field, \<open>None\<close> for \<^verbatim>\<open>NaN\<close>.
  \<^item> \<open>logDiv\<close>, \<open>trace\<close> and \<open>wavelogPosts\<close> record the log entries shown, the actions
    performed and the telemetry requests issued.
\<close>

record radio =
  now :: nat
  port :: bool
  writer :: bool
  isConnected :: bool
  pttActive :: bool
  IC7300_ADDRESS :: byte
  WAVELOG_URL :: string
  WAVELOG_API_KEY :: string
  WAVELOG_ENABLED :: bool
  lastFrequencyHz :: "jsnum option"
  lastModeCode :: "byte option"
  wavelogDebounceTimer :: "nat option"
  cwKeying :: bool
  cwKeyLine :: string
  cwWPM :: "int option"
  sendCWBtnDisabled :: bool
  stopCWBtnDisabled :: bool
  freqDisplay :: "jsnum option"
  modeDisplay :: "string option"
  meter :: "(nat \<times> meterMode) option"
  logDiv :: "logEntry list"
  trace :: "action list"
  wavelogPosts :: "wavelogPost list"

definition WAVELOG_DEBOUNCE_MS :: nat where "WAVELOG_DEBOUNCE_MS = 500"

text \<open>\<^verbatim>\<open>log\<close>: append the entry, then keep only the last 50.\<close>

definition logMsg :: "logEntry \<Rightarrow> radio \<Rightarrow> radio" where
  "logMsg e s =
     (let es = logDiv s @ [e] in s\<lparr> logDiv := drop (length es - 50) es \<rparr>)"

definition perform :: "action \<Rightarrow> radio \<Rightarrow> radio" where
  "perform a s = s\<lparr> trace := trace s @ [a] \<rparr>"

text \<open>
  The table \<^verbatim>\<open>MODES\<close>. The source keys it by the two-digit upper-case hexadecimal text of
  the mode byte, which names each byte value uniquely; the model keys it by the value.
\<close>

definition MODES :: "byte \<Rightarrow> string option" where
  "MODES = map_of
     [(0x00, ''LSB''), (0x01, ''USB''), (0x02, ''AM''), (0x03, ''CW''),
      (0x04, ''RTTY''), (0x05, ''FM''), (0x07, ''CW-R''), (0x08, ''RTTY-R'')]"

section \<open>Telemetry notifier\<close>

text \<open>The table \<^verbatim>\<open>modeMap\<close> of \<^verbatim>\<open>sendToWavelog\<close>.\<close>

definition modeMap :: "byte \<Rightarrow> string option" where
  "modeMap = map_of
     [(0x00, ''LSB''), (0x01, ''USB''), (0x02, ''AM''), (0x03, ''CW''),
      (0x04, ''RTTY''), (0x05, ''FM''), (0x07, ''CW''), (0x08, ''RTTY'')]"

text \<open>\<^verbatim>\<open>WAVELOG_URL.replace(/\/$/, '')\<close>: one trailing slash is removed.\<close>

definition stripSlash :: "string \<Rightarrow> string" where
  "stripSlash u = (if u \<noteq> [] \<and> last u = CHR ''/'' then butlast u else u)"

text \<open>
  \<^verbatim>\<open>sendToWavelog(frequency, mode)\<close> up to the point where the request is issued. An
  empty string is falsy, and \<^verbatim>\<open>modeMap[mode] || 'USB'\<close> falls back to \<^verbatim>\<open>'USB'\<close> for a
  code without entry and for \<^verbatim>\<open>null\<close>. The outcome of the request is only logged.
\<close>

definition wavelogModeName :: "byte option \<Rightarrow> string" where
  "wavelogModeName mode =
     (case mode of
        None \<Rightarrow> ''USB''
      | Some m \<Rightarrow> (case modeMap m of None \<Rightarrow> ''USB'' | Some n \<Rightarrow> n))"

definition sendToWavelog :: "jsnum option \<Rightarrow> byte option \<Rightarrow> radio \<Rightarrow> radio" where
  "sendToWavelog frequency mode s =
     (if \<not> WAVELOG_ENABLED s \<or> WAVELOG_URL s = [] \<or> WAVELOG_API_KEY s = [] then s
      else
        let url = stripSlash (WAVELOG_URL s) @ ''/index.php/api/radio'';
            modeName = wavelogModeName mode
        in s\<lparr> wavelogPosts := wavelogPosts s @
                 [\<lparr> postTime = now s, argFrequency = frequency, argMode = mode,
                    postUrl = url, postKey = WAVELOG_API_KEY s, postRadio = ''IC-7300'',
                    postModeName = modeName \<rparr>] \<rparr>)"

text \<open>
  \<^verbatim>\<open>onRadioStateChanged\<close>: with both values known, a pending timeout is cleared and a new
  one is set to fire \<open>WAVELOG_DEBOUNCE_MS\<close> from now.
\<close>

definition onRadioStateChanged :: "radio \<Rightarrow> radio" where
  "onRadioStateChanged s =
     (if lastFrequencyHz s \<noteq> None \<and> lastModeCode s \<noteq> None
      then s\<lparr> wavelogDebounceTimer := Some (now s + WAVELOG_DEBOUNCE_MS) \<rparr>
      else s)"

text \<open>
  The callback given to \<^verbatim>\<open>setTimeout\<close>: it reads the two variables when it runs, not
  when the timeout was set.
\<close>

definition wavelogTimeout :: "radio \<Rightarrow> radio" where
  "wavelogTimeout s =
     (sendToWavelog (lastFrequencyHz s) (lastModeCode s) s)\<lparr> wavelogDebounceTimer := None \<rparr>"

text \<open>
  \<open>dt\<close> milliseconds pass without input. A timeout is taken to fire exactly when it is due
  (the browser guarantees only that it does not fire earlier), and before a frame that
  arrives at the same instant.
\<close>

definition elapse :: "nat \<Rightarrow> radio \<Rightarrow> radio" where
  "elapse dt s =
     (case wavelogDebounceTimer s of
        None \<Rightarrow> s\<lparr> now := now s + dt \<rparr>
      | Some due \<Rightarrow>
          if due \<le> now s + dt
          then (wavelogTimeout (s\<lparr> now := max (now s) due \<rparr>))\<lparr> now := now s + dt \<rparr>
          else s\<lparr> now := now s + dt \<rparr>)"

section \<open>State tracker\<close>

text \<open>\<^verbatim>\<open>a !== b\<close> on numbers: \<^verbatim>\<open>NaN\<close> differs from everything, itself included.\<close>

definition strictNeq :: "jsnum \<Rightarrow> jsnum \<Rightarrow> bool" where
  "strictNeq a b = (a = NaN \<or> b = NaN \<or> a \<noteq> b)"

text \<open>
  The branch \<^verbatim>\<open>response.cmd === CMD_READ_FREQ\<close> of \<^verbatim>\<open>handleResponse\<close>. The payload
  bytes reach \<^verbatim>\<open>bcdToFrequency\<close> as numbers (\<open>unat\<close>). Nibbles above 9 print as two
  digits each, and the text can then denote an integer above \<open>2\<^sup>5\<^sup>3\<close>, which JavaScript
  rounds to a double; the model keeps the exact integer.
\<close>

definition handleFrequency :: "response \<Rightarrow> radio \<Rightarrow> radio" where
  "handleFrequency response s =
     (if length (payload response) \<ge> 5 then
        let freqHz = bcdToFrequency (map unat (take 5 (payload response)));
            s1 = logMsg (LogFrequency freqHz) (s\<lparr> freqDisplay := Some freqHz \<rparr>);
            s2 = (case lastFrequencyHz s1 of
                    None \<Rightarrow> s1
                  | Some l \<Rightarrow> if strictNeq l freqHz then onRadioStateChanged s1 else s1)
        in s2\<lparr> lastFrequencyHz := Some freqHz \<rparr>
      else s)"

text \<open>The branch \<^verbatim>\<open>response.cmd === CMD_READ_MODE\<close>.\<close>

definition handleMode :: "response \<Rightarrow> radio \<Rightarrow> radio" where
  "handleMode response s =
     (if length (payload response) \<ge> 1 then
        let modeCode = payload response ! 0;
            modeName = (case MODES modeCode of None \<Rightarrow> ''Unknown'' | Some n \<Rightarrow> n);
            s1 = logMsg (LogMode modeName) (s\<lparr> modeDisplay := Some modeName \<rparr>);
            s2 = (case lastModeCode s1 of
                    None \<Rightarrow> s1
                  | Some l \<Rightarrow> if l \<noteq> modeCode then onRadioStateChanged s1 else s1)
        in s2\<lparr> lastModeCode := Some modeCode \<rparr>
      else s)"

definition updateBargraph :: "nat \<Rightarrow> meterMode \<Rightarrow> radio \<Rightarrow> radio" where
  "updateBargraph rawValue mode s = s\<lparr> meter := Some (rawValue, mode) \<rparr>"

text \<open>The branch \<^verbatim>\<open>response.cmd === CMD_READ_SMETER\<close>.\<close>

definition handleMeter :: "response \<Rightarrow> radio \<Rightarrow> radio" where
  "handleMeter response s =
     (if length (payload response) \<ge> 3 then
        let subCmd = payload response ! 0;
            valueHigh = unat (payload response ! 1);
            valueLow = unat (payload response ! 2);
            val = push_bit 8 valueHigh OR valueLow
        in if subCmd = 0x02 then (if \<not> pttActive s then updateBargraph val rx s else s)
           else if subCmd = 0x11 then (if pttActive s then updateBargraph val tx s else s)
           else s
      else s)"

text \<open>
  The branch \<^verbatim>\<open>response.cmd === CMD_READ_OPERATING_STATUS\<close>. \<^verbatim>\<open>updatePTTButton\<close> redraws
  the button from \<open>pttActive\<close> and changes no variable.
\<close>

definition handleOperatingStatus :: "response \<Rightarrow> radio \<Rightarrow> radio" where
  "handleOperatingStatus response s =
     (if length (payload response) \<ge> 2 then
        let subCmd = payload response ! 0
        in if subCmd = 0x00 then
             let txState = payload response ! 1;
                 newPttState = (txState = 0x01)
             in if pttActive s \<noteq> newPttState
                then logMsg (LogPttDetected newPttState) (s\<lparr> pttActive := newPttState \<rparr>)
                else s
           else s
      else s)"

text \<open>
  \<^verbatim>\<open>handleResponse(data)\<close>. After the two early returns the four \<^verbatim>\<open>if\<close> statements run
  one after the other, as in the source. The last branch, for \<^verbatim>\<open>CMD_SEND_CW\<close>, only
  writes to the console.
\<close>

definition handleResponse :: "radio \<Rightarrow> byte list \<Rightarrow> radio" where
  "handleResponse s0 data =
     (let s = logMsg (LogRX data) s0
      in case parseResponse data of
           None \<Rightarrow> logMsg LogInvalidResponsePacket s
         | Some response \<Rightarrow>
             if cmd response = 0xFB then logMsg LogCommandAcknowledged s
             else if cmd response = 0xFA then logMsg LogCommandRejected s
             else
               let s1 = (if cmd response = CMD_READ_FREQ then handleFrequency response s else s);
                   s2 = (if cmd response = CMD_READ_MODE then handleMode response s1 else s1);
                   s3 = (if cmd response = CMD_READ_SMETER then handleMeter response s2 else s2);
                   s4 = (if cmd response = CMD_READ_OPERATING_STATUS
                         then handleOperatingStatus response s3 else s3)
               in s4)"

text \<open>
  What happens to the controller between user commands: a packet is handed to
  \<^verbatim>\<open>handleResponse\<close>, or time passes.
\<close>

datatype event = Received "byte list" | Elapsed nat

fun step :: "radio \<Rightarrow> event \<Rightarrow> radio" where
  "step s (Received data) = handleResponse s data"
| "step s (Elapsed dt) = elapse dt s"

definition exec :: "radio \<Rightarrow> event list \<Rightarrow> radio" where
  "exec s evs = foldl step s evs"

text \<open>
  The state when the script has loaded: the module-level variables hold their initial
  values and nothing has been sent. The clock, the settings read from storage and the page
  elements are those of \<open>s\<close>.
\<close>

definition startup :: "radio \<Rightarrow> radio" where
  "startup s =
     s\<lparr> port := False, writer := False, isConnected := False, pttActive := False,
        lastFrequencyHz := None, lastModeCode := None, wavelogDebounceTimer := None,
        cwKeying := False, trace := [], wavelogPosts := [] \<rparr>"

section \<open>Commands and the CW keyer\<close>

text \<open>
  \<^verbatim>\<open>sendCommand(cmd, data)\<close>; the result tells whether the frame was written. The
  transport is taken to accept every write, so the \<^verbatim>\<open>catch\<close> branch is not modelled.
\<close>

definition sendCommand :: "byte \<Rightarrow> nat list \<Rightarrow> radio \<Rightarrow> bool \<times> radio" where
  "sendCommand c data s =
     (if \<not> writer s \<or> \<not> isConnected s then (False, logMsg LogNotConnected s)
      else
        let command = buildCommand (IC7300_ADDRESS s) c data
        in (True, logMsg (LogTX command) (perform (Write command) s)))"

definition togglePTT :: "radio \<Rightarrow> radio" where
  "togglePTT s =
     (if \<not> pttActive s
      then logMsg LogPttActivated ((snd (sendCommand CMD_PTT [0x00, 0x01] s))\<lparr> pttActive := True \<rparr>)
      else logMsg LogPttReleased ((snd (sendCommand CMD_PTT [0x00, 0x00] s))\<lparr> pttActive := False \<rparr>))"

text \<open>The table \<^verbatim>\<open>MORSE_CODE\<close>.\<close>

definition MORSE_CODE :: "char \<Rightarrow> string option" where
  "MORSE_CODE = map_of
     [(CHR ''A'', ''.-''),    (CHR ''B'', ''-...''),  (CHR ''C'', ''-.-.''),  (CHR ''D'', ''-..''),
      (CHR ''E'', ''.''),     (CHR ''F'', ''..-.''),  (CHR ''G'', ''--.''),   (CHR ''H'', ''....''),
      (CHR ''I'', ''..''),    (CHR ''J'', ''.---''),  (CHR ''K'', ''-.-''),   (CHR ''L'', ''.-..''),
      (CHR ''M'', ''--''),    (CHR ''N'', ''-.''),    (CHR ''O'', ''---''),   (CHR ''P'', ''.--.''),
      (CHR ''Q'', ''--.-''),  (CHR ''R'', ''.-.''),   (CHR ''S'', ''...''),   (CHR ''T'', ''-''),
      (CHR ''U'', ''..-''),   (CHR ''V'', ''...-''),  (CHR ''W'', ''.--''),   (CHR ''X'', ''-..-''),
      (CHR ''Y'', ''-.--''),  (CHR ''Z'', ''--..''),  (CHR ''0'', ''-----''), (CHR ''1'', ''.----''),
      (CHR ''2'', ''..---''), (CHR ''3'', ''...--''), (CHR ''4'', ''....-''), (CHR ''5'', ''.....''),
      (CHR ''6'', ''-....''), (CHR ''7'', ''--...''), (CHR ''8'', ''---..''), (CHR ''9'', ''----.''),
      (CHR ''/'', ''-..-.''), (CHR ''?'', ''..--..''), (CHR ''.'', ''.-.-.-''),
      (CHR '','', ''--..--''), (CHR ''='', ''-...-''), (CHR ''+'', ''.-.-.''),
      (CHR ''-'', ''-....-''), (CHR '' '', '' '')]"

text \<open>
  The text of a message is a string of code units below 256 (\<open>char\<close>).

  \<^verbatim>\<open>toUpperCase\<close> on one such code unit: the letters a to z and the Latin-1 letters
  \<^verbatim>\<open>E0\<close> to \<^verbatim>\<open>FE\<close> other than the division sign \<^verbatim>\<open>F7\<close> move down by \<^verbatim>\<open>20\<close>, and the
  sharp s \<^verbatim>\<open>DF\<close> becomes the two letters \<^verbatim>\<open>SS\<close>. The upper-case forms of the micro
  sign \<^verbatim>\<open>B5\<close> and of \<^verbatim>\<open>FF\<close> are U+039C and U+0178, which are not below 256: the model
  keeps these two code units as they are, to stand for their upper-case forms (in the
  logged message too). Like those they are no white space and no key of \<^verbatim>\<open>MORSE_CODE\<close>,
  and a further \<^verbatim>\<open>toUpperCase\<close> leaves them as it leaves those, so the keyer treats them
  alike.
\<close>

definition toUpperUnit :: "char \<Rightarrow> string" where
  "toUpperUnit c =
     (let n = (of_char c :: nat)
      in if (97 \<le> n \<and> n \<le> 122) \<or> (224 \<le> n \<and> n \<le> 254 \<and> n \<noteq> 247) then [char_of (n - 32)]
         else if n = 223 then ''SS''
         else [c])"

definition toUpperCase :: "string \<Rightarrow> string" where
  "toUpperCase str = concat (map toUpperUnit str)"

text \<open>
  \<^verbatim>\<open>trim\<close> removes white space and line terminators from both ends. Below 256 these are
  tab, line feed, vertical tab, form feed, carriage return, space and the no-break space
  \<^verbatim>\<open>A0\<close>.
\<close>

definition isSpace :: "char \<Rightarrow> bool" where
  "isSpace c = (let n = (of_char c :: nat) in (9 \<le> n \<and> n \<le> 13) \<or> n = 32 \<or> n = 160)"

definition trim :: "string \<Rightarrow> string" where
  "trim str = rev (dropWhile isSpace (rev (dropWhile isSpace str)))"

text \<open>
  \<^verbatim>\<open>MORSE_CODE[key]\<close> for a string \<open>key\<close>: the keys of the table are strings of one
  character.
\<close>

definition lookupMorse :: "string \<Rightarrow> string option" where
  "lookupMorse key = (case key of [k] \<Rightarrow> MORSE_CODE k | _ \<Rightarrow> None)"

record cwTiming =
  dot :: rat
  dash :: rat
  symbolSpace :: rat
  letterSpace :: rat
  wordSpace :: rat

text \<open>
  \<^verbatim>\<open>getCWTiming(wpm)\<close>, in milliseconds. The source computes in binary floating point.
  The model computes exact rationals, and it agrees with the source for the speeds that
  divide 1200: the quotient and its multiples are then integers, which floating point
  represents exactly. For any other speed the source's values are the nearest doubles
  (for 7, 171.42857142857142 and not 1200/7), and for 0, which the keyer never passes, the
  source yields \<^verbatim>\<open>Infinity\<close>. Nothing below is stated for such speeds.
\<close>

definition getCWTiming :: "int \<Rightarrow> cwTiming" where
  "getCWTiming wpm =
     (let dotDuration = 1200 / of_int wpm
      in \<lparr> dot = dotDuration, dash = dotDuration * 3, symbolSpace = dotDuration,
           letterSpace = dotDuration * 3, wordSpace = dotDuration * 7 \<rparr>)"

definition keyDown :: "radio \<Rightarrow> radio" where
  "keyDown s =
     (if \<not> port s then s
      else if cwKeyLine s = ''dtr'' then perform (SetSignals dataTerminalReady True) s
      else if cwKeyLine s = ''rts'' then perform (SetSignals requestToSend True) s
      else s)"

definition keyUp :: "radio \<Rightarrow> radio" where
  "keyUp s =
     (if \<not> port s then s
      else if cwKeyLine s = ''dtr'' then perform (SetSignals dataTerminalReady False) s
      else if cwKeyLine s = ''rts'' then perform (SetSignals requestToSend False) s
      else s)"

text \<open>
  The symbol loop of \<^verbatim>\<open>sendMorseChar\<close>, on the symbols still to send. The flag
  \<open>cwKeying\<close> is read at the head of every iteration; \<^verbatim>\<open>stopCW\<close> running while the
  keyer waits is not interleaved here, so the flag keeps the value the caller set.
\<close>

fun sendSymbols :: "cwTiming \<Rightarrow> string \<Rightarrow> radio \<Rightarrow> radio" where
  "sendSymbols timing [] s = s"
| "sendSymbols timing (symbol # rest) s =
     (if \<not> cwKeying s then s
      else
        let duration = (if symbol = CHR ''.'' then dot timing else dash timing);
            s1 = keyDown s;
            s2 = perform (Delay duration) s1;
            s3 = keyUp s2;
            s4 = (if rest \<noteq> [] then perform (Delay (symbolSpace timing)) s3 else s3)
        in sendSymbols timing rest s4)"

definition sendMorseChar :: "char \<Rightarrow> cwTiming \<Rightarrow> radio \<Rightarrow> radio" where
  "sendMorseChar c timing s =
     (case lookupMorse (toUpperUnit c) of
        None \<Rightarrow> s
      | Some morse \<Rightarrow>
          if morse = '' '' then perform (Delay (wordSpace timing - letterSpace timing)) s
          else perform (Delay (letterSpace timing)) (sendSymbols timing morse s))"

text \<open>
  \<^verbatim>\<open>for (let i = 0; i < message.length && cwKeying; i++) await sendMorseChar(message[i], timing)\<close>
\<close>

fun sendChars :: "cwTiming \<Rightarrow> string \<Rightarrow> radio \<Rightarrow> radio" where
  "sendChars timing [] s = s"
| "sendChars timing (c # cs) s =
     (if cwKeying s then sendChars timing cs (sendMorseChar c timing s) else s)"

text \<open>
  \<^verbatim>\<open>parseInt(document.getElementById('cwWPM').value) || 20\<close>: \<^verbatim>\<open>NaN\<close> and 0 are falsy.
\<close>

definition cwSessionWPM :: "radio \<Rightarrow> int" where
  "cwSessionWPM s = (case cwWPM s of None \<Rightarrow> 20 | Some w \<Rightarrow> if w = 0 then 20 else w)"

datatype cwOutcome = RejectedNotConnected | RejectedEmptyMessage | Completed

text \<open>
  \<^verbatim>\<open>sendCWMessage(message)\<close>, the second definition of that name in the file, which
  replaces the first when the script is loaded. It is given in three parts: what runs up
  to \<^verbatim>\<open>cwKeying = true\<close>, the body of the \<^verbatim>\<open>try\<close> block, and what runs after it.
  The function returns nothing; the outcome tells which \<^verbatim>\<open>return\<close> was taken,
  \<open>Completed\<close> when neither was. The state returned is that of a session during whose
  waits nothing else runs; other calls that run while it waits are not interleaved.
\<close>

definition cwEnter :: "string \<Rightarrow> int \<Rightarrow> radio \<Rightarrow> radio" where
  "cwEnter message wpm s =
     (logMsg (LogSendingCW message wpm) s)
       \<lparr> sendCWBtnDisabled := True, stopCWBtnDisabled := False, cwKeying := True \<rparr>"

definition cwTransmit :: "string \<Rightarrow> cwTiming \<Rightarrow> radio \<Rightarrow> radio" where
  "cwTransmit message timing s =
     (let s1 = (snd (sendCommand CMD_PTT [0x00, 0x01] s))\<lparr> pttActive := True \<rparr>;
          s2 = perform (Delay 100) s1;
          s3 = sendChars timing message s2
      in logMsg (if cwKeying s3 then LogCWMessageSent else LogCWTransmissionStopped) s3)"

definition cwLeave :: "radio \<Rightarrow> radio" where
  "cwLeave s =
     (let s1 = keyUp (s\<lparr> cwKeying := False \<rparr>);
          s2 = perform (Delay 100) s1;
          s3 = (snd (sendCommand CMD_PTT [0x00, 0x00] s2))\<lparr> pttActive := False \<rparr>
      in s3\<lparr> sendCWBtnDisabled := False, stopCWBtnDisabled := True \<rparr>)"

definition sendCWMessage :: "string \<Rightarrow> radio \<Rightarrow> cwOutcome \<times> radio" where
  "sendCWMessage message0 s =
     (if \<not> isConnected s \<or> \<not> port s
      then (RejectedNotConnected, logMsg LogNotConnectedToRadio s)
      else
        let message = trim (toUpperCase message0)
        in if message = [] then (RejectedEmptyMessage, logMsg LogEnterCWMessage s)
           else
             let wpm = cwSessionWPM s;
                 timing = getCWTiming wpm
             in (Completed, cwLeave (cwTransmit message timing (cwEnter message wpm s))))"

text \<open>
  What one call of \<^verbatim>\<open>sendCWMessage\<close> has done when it first gives up control, which is at
  the \<^verbatim>\<open>await\<close> of the PTT-on command: the two guards, \<open>cwEnter\<close>, and of \<^verbatim>\<open>sendCommand\<close>
  the check and the frame handed to the writer. A call does this much in one piece,
  whatever else is under way. The first component is the outcome when the call has
  returned and \<open>None\<close> when it is suspended in the session.
\<close>

definition sendCWMessage_firstPart :: "string \<Rightarrow> radio \<Rightarrow> cwOutcome option \<times> radio" where
  "sendCWMessage_firstPart message0 s =
     (if \<not> isConnected s \<or> \<not> port s
      then (Some RejectedNotConnected, logMsg LogNotConnectedToRadio s)
      else
        let message = trim (toUpperCase message0)
        in if message = [] then (Some RejectedEmptyMessage, logMsg LogEnterCWMessage s)
           else
             let s1 = cwEnter message (cwSessionWPM s) s
             in (None,
                 if \<not> writer s1 \<or> \<not> isConnected s1 then logMsg LogNotConnected s1
                 else perform (Write (buildCommand (IC7300_ADDRESS s1) CMD_PTT [0x00, 0x01])) s1))"

definition stopCW :: "radio \<Rightarrow> radio" where
  "stopCW s =
     (let s1 = keyUp (logMsg LogStoppingCW (s\<lparr> cwKeying := False \<rparr>));
          s2 = perform (Delay 100) s1
      in (snd (sendCommand CMD_PTT [0x00, 0x00] s2))\<lparr> pttActive := False \<rparr>)"


text \<open>The two-byte marker \<^verbatim>\<open>FE FE\<close> at index \<open>i\<close> of the buffer.\<close>

definition markerAt :: "byte list \<Rightarrow> nat \<Rightarrow> bool" where
  "markerAt buffer i = (buffer ! i = 0xFE \<and> buffer ! (i + 1) = 0xFE)"

text \<open>The byte sequence of the extractor example: one noise byte, then a frequency frame.\<close>

definition noisyFrame :: "byte list" where
  "noisyFrame = [0xAA, 0xFE, 0xFE, 0x94, 0xE0, 0x03, 0x00, 0x00, 0x00, 0x00, 0x00, 0xFD]"

text \<open>
  A packet is a change event in state \<open>s\<close> when it makes \<^verbatim>\<open>handleResponse\<close> call
  \<^verbatim>\<open>onRadioStateChanged\<close>: a frequency response that differs from the known frequency, or
  a mode response that differs from the known mode.
\<close>

definition changeEvent :: "radio \<Rightarrow> byte list \<Rightarrow> bool" where
  "changeEvent s data =
     (case parseResponse data of
        None \<Rightarrow> False
      | Some r \<Rightarrow>
          (cmd r = CMD_READ_FREQ \<and> length (payload r) \<ge> 5 \<and>
             (case lastFrequencyHz s of
                None \<Rightarrow> False
              | Some l \<Rightarrow> strictNeq l (bcdToFrequency (map unat (take 5 (payload r))))))
          \<or> (cmd r = CMD_READ_MODE \<and> length (payload r) \<ge> 1 \<and>
                (case lastModeCode s of None \<Rightarrow> False | Some l \<Rightarrow> l \<noteq> payload r ! 0)))"

text \<open>Every packet of a timeline is a change event in the state it arrives in.\<close>

fun changeEvents :: "radio \<Rightarrow> event list \<Rightarrow> bool" where
  "changeEvents s [] = True"
| "changeEvents s (Received data # evs) =
     (changeEvent s data \<and> changeEvents (handleResponse s data) evs)"
| "changeEvents s (Elapsed dt # evs) = changeEvents (elapse dt s) evs"

text \<open>Telemetry is switched on and configured, and both values have been decoded.\<close>

definition telemetryReady :: "radio \<Rightarrow> bool" where
  "telemetryReady s =
     (WAVELOG_ENABLED s \<and> WAVELOG_URL s \<noteq> [] \<and> WAVELOG_API_KEY s \<noteq> [] \<and>
      lastFrequencyHz s \<noteq> None \<and> lastModeCode s \<noteq> None)"

text \<open>
  The guard on telemetry: a timeout is pending or a request has been issued only if both
  values are known, and every request issued carries both.
\<close>

definition telemetryGuarded :: "radio \<Rightarrow> bool" where
  "telemetryGuarded s =
     (((wavelogDebounceTimer s \<noteq> None \<or> wavelogPosts s \<noteq> [])
         \<longrightarrow> lastFrequencyHz s \<noteq> None \<and> lastModeCode s \<noteq> None)
      \<and> (\<forall>p \<in> set (wavelogPosts s). argFrequency p \<noteq> None \<and> argMode p \<noteq> None))"

text \<open>
  The frames with which the radio at address \<open>addr\<close> answers the controller's frequency
  and mode queries.
\<close>

definition freqResponse :: "byte \<Rightarrow> nat \<Rightarrow> byte list" where
  "freqResponse addr hz =
     [0xFE, 0xFE, CONTROLLER_ADDRESS, addr, CMD_READ_FREQ] @ map of_nat (frequencyToBCD hz) @ [0xFD]"

definition modeResponse :: "byte \<Rightarrow> byte \<Rightarrow> byte \<Rightarrow> byte list" where
  "modeResponse addr mode filt =
     [0xFE, 0xFE, CONTROLLER_ADDRESS, addr, CMD_READ_MODE, mode, filt, 0xFD]"

text \<open>
  A state to run examples in: connected to the radio at \<^verbatim>\<open>94\<close>, receiving on 14.074 MHz
  USB, telemetry switched on, keying over DTR at 20 WPM.
\<close>

definition demoRadio :: radio where
  "demoRadio =
     \<lparr> now = 0, port = True, writer = True, isConnected = True, pttActive = False,
       IC7300_ADDRESS = 0x94, WAVELOG_URL = ''https://log.example/'',
       WAVELOG_API_KEY = ''k1'', WAVELOG_ENABLED = True,
       lastFrequencyHz = Some (Num 14074000), lastModeCode = Some 0x01,
       wavelogDebounceTimer = None, cwKeying = False, cwKeyLine = ''dtr'', cwWPM = Some 20,
       sendCWBtnDisabled = False, stopCWBtnDisabled = True,
       freqDisplay = Some (Num 14074000), modeDisplay = Some ''USB'', meter = None,
       logDiv = [], trace = [], wavelogPosts = [] \<rparr>"

text \<open>
  Five changes 100 ms apart: three of frequency, one of mode, one more of frequency.
\<close>

definition demoBurst :: "event list" where
  "demoBurst =
     [Received (freqResponse 0x94 14074100), Elapsed 100,
      Received (freqResponse 0x94 14074200), Elapsed 100,
      Received (modeResponse 0x94 0x03 0x01), Elapsed 100,
      Received (freqResponse 0x94 7030000), Elapsed 100,
      Received (freqResponse 0x94 7030100)]"

text \<open>The control line that the key-line selector names, for its two keying values.\<close>

definition keyLineSignal :: "radio \<Rightarrow> signal" where
  "keyLineSignal s = (if cwKeyLine s = ''dtr'' then dataTerminalReady else requestToSend)"

text \<open>
  The example state while a keyer session is running: \<open>cwKeying\<close> and the PTT flag are
  set and the send button is disabled.
\<close>

definition busyRadio :: radio where
  "busyRadio =
     demoRadio\<lparr> cwKeying := True, pttActive := True, sendCWBtnDisabled := True,
                stopCWBtnDisabled := False \<rparr>"

text \<open>Fixed-width decimal text, used to describe what \<open>padStart\<close> produces.\<close>

fun digitsW :: "nat \<Rightarrow> nat \<Rightarrow> string" where
  "digitsW 0 n = []"
| "digitsW (Suc k) n = digitsW k (n div 10) @ [digitChar (n mod 10)]"

section \<open>Properties of the packed-decimal conversion\<close>

lemma mask4_nat: "(15::nat) = mask 4"
  by (simp add: mask_eq_exp_minus_1)

lemma low_nibble_pack:
  fixes h l :: nat
  assumes "l < 10"
  shows "(push_bit 4 h OR l) AND 15 = l"
  unfolding mask4_nat take_bit_eq_mask [symmetric]
  using assms by (simp add: take_bit_push_bit take_bit_nat_eq_self)

lemma high_nibble_pack:
  fixes h l :: nat
  assumes "h < 10" "l < 10"
  shows "drop_bit 4 (push_bit 4 h OR l) AND 15 = h"
proof -
  have lo: "drop_bit 4 l = 0"
    using assms by (simp add: drop_bit_eq_div)
  have hi: "drop_bit 4 (push_bit 4 h) = h"
    by (simp add: drop_bit_eq_div push_bit_eq_mult)
  have "drop_bit 4 (push_bit 4 h OR l) = drop_bit 4 (push_bit 4 h) OR drop_bit 4 l"
    by (rule drop_bit_or)
  then have "drop_bit 4 (push_bit 4 h OR l) = h"
    by (simp only: lo hi) simp
  moreover have "take_bit 4 h = h"
    using assms by (simp add: take_bit_nat_eq_self)
  ultimately show ?thesis
    by (simp only: mask4_nat take_bit_eq_mask [symmetric])
qed

lemma digitChar_0: "digitChar 0 = CHR ''0''"
proof -
  have "(of_char (digitChar 0) :: nat) = of_char (CHR ''0'')"
    by (simp add: digitChar_def)
  then show ?thesis
    by (simp only: of_char_eq_iff)
qed

lemma digitVal_digitChar: "d < 10 \<Longrightarrow> digitVal (digitChar d) = d"
  by (simp add: digitVal_def digitChar_def)

lemma isDigit_digitChar: "d < 10 \<Longrightarrow> isDigit (digitChar d)"
  by (simp add: isDigit_def digitChar_def)

lemma toString_digit: "d < 10 \<Longrightarrow> toString d = [digitChar d]"
  by (simp add: toString.simps)

lemma digitsW_zero: "digitsW k 0 = replicate k (CHR ''0'')"
  by (induction k) (simp_all add: digitChar_0 replicate_append_same)

lemma length_digitsW: "length (digitsW k n) = k"
  by (induction k arbitrary: n) simp_all

lemma padStart_snoc:
  "padStart (Suc k) c (xs @ [x]) = padStart k c xs @ [x]"
  by (simp add: padStart_def)

lemma padStart_toString:
  "n < 10 ^ Suc k \<Longrightarrow> padStart (Suc k) (CHR ''0'') (toString n) = digitsW (Suc k) n"
proof (induction k arbitrary: n)
  case 0
  then show ?case
    by (simp add: toString_digit padStart_def)
next
  case (Suc k)
  show ?case
  proof (cases "n < 10")
    case True
    have "padStart (Suc (Suc k)) (CHR ''0'') (toString n)
            = replicate (Suc k) (CHR ''0'') @ [digitChar n]"
      using True by (simp add: toString_digit padStart_def)
    also have "\<dots> = digitsW (Suc k) (n div 10) @ [digitChar (n mod 10)]"
      using True by (simp only: digitsW_zero div_less mod_less)
    finally show ?thesis by simp
  next
    case False
    have small: "n div 10 < 10 ^ Suc k"
      using Suc.prems by (simp add: less_mult_imp_div_less mult.commute)
    have "toString n = toString (n div 10) @ [digitChar (n mod 10)]"
      using False by (subst toString.simps) simp
    then have "padStart (Suc (Suc k)) (CHR ''0'') (toString n)
                 = padStart (Suc k) (CHR ''0'') (toString (n div 10)) @ [digitChar (n mod 10)]"
      by (simp only: padStart_snoc)
    also have "\<dots> = digitsW (Suc k) (n div 10) @ [digitChar (n mod 10)]"
      by (simp only: Suc.IH [OF small])
    finally show ?thesis by simp
  qed
qed

lemma all_digits_digitsW: "\<forall>c \<in> set (digitsW k n). isDigit c"
  by (induction k arbitrary: n) (simp_all add: isDigit_digitChar)

lemma value_digitsW:
  "foldl (\<lambda>a c. a * 10 + digitVal c) a (digitsW k n) = a * 10 ^ k + n mod 10 ^ k"
proof (induction k arbitrary: n a)
  case 0
  then show ?case by simp
next
  case (Suc k)
  have split: "n mod 10 ^ Suc k = 10 * (n div 10 mod 10 ^ k) + n mod 10"
    by (simp add: mod_mult2_eq)
  have "foldl (\<lambda>a c. a * 10 + digitVal c) a (digitsW (Suc k) n)
          = (a * 10 ^ k + n div 10 mod 10 ^ k) * 10 + n mod 10"
    by (simp add: Suc.IH digitVal_digitChar)
  also have "\<dots> = a * 10 ^ Suc k + n mod 10 ^ Suc k"
    by (simp only: split) (simp add: algebra_simps)
  finally show ?case .
qed

lemma parseInt_digitsW: "parseInt (digitsW (Suc k) n) = Num (n mod 10 ^ Suc k)"
proof -
  have "takeWhile isDigit (digitsW (Suc k) n) = digitsW (Suc k) n"
    using all_digits_digitsW by (simp only: takeWhile_eq_all_conv) blast
  moreover have "digitsW (Suc k) n \<noteq> []"
    by simp
  ultimately show ?thesis
    unfolding parseInt_def Let_def
    by (simp only: value_digitsW if_False) simp
qed

lemma parseInt_digit: "d < 10 \<Longrightarrow> parseInt [digitChar d] = Num d"
  using parseInt_digitsW [of 0 d] by simp

lemma ten_Suc: "(10::nat) = Suc (Suc (Suc (Suc (Suc (Suc (Suc (Suc (Suc (Suc 0)))))))))"
  by simp

lemma digitsW_10:
  "digitsW 10 n =
     [digitChar (n div 1000000000 mod 10), digitChar (n div 100000000 mod 10),
      digitChar (n div 10000000 mod 10), digitChar (n div 1000000 mod 10),
      digitChar (n div 100000 mod 10), digitChar (n div 10000 mod 10),
      digitChar (n div 1000 mod 10), digitChar (n div 100 mod 10),
      digitChar (n div 10 mod 10), digitChar (n mod 10)]"
  by (simp only: ten_Suc digitsW.simps) (simp add: div_mult2_eq [symmetric])

lemma upt_5: "[0..<5] = [0, 1, 2, 3, 4::nat]"
  by (simp add: upt_rec)

lemma frequencyToBCD_digits:
  assumes "f < 10000000000"
  shows "frequencyToBCD f =
     [push_bit 4 (f div 10 mod 10) OR (f mod 10),
      push_bit 4 (f div 1000 mod 10) OR (f div 100 mod 10),
      push_bit 4 (f div 100000 mod 10) OR (f div 10000 mod 10),
      push_bit 4 (f div 10000000 mod 10) OR (f div 1000000 mod 10),
      push_bit 4 (f div 1000000000 mod 10) OR (f div 100000000 mod 10)]"
proof -
  have "f < 10 ^ Suc 9" using assms by simp
  then have "padStart (Suc 9) (CHR ''0'') (toString f) = digitsW (Suc 9) f"
    by (rule padStart_toString)
  then have str: "padStart 10 (CHR ''0'') (toString f) = digitsW 10 f"
    by simp
  show ?thesis
    unfolding frequencyToBCD_def Let_def str digitsW_10 upt_5
    by (simp add: bcdByte_def charAt_def parseInt_digit)
qed

lemma nibble_text:
  fixes a b :: nat
  shows "toString (drop_bit 4 (push_bit 4 (a mod 10) OR b mod 10) AND 15)
           @ toString ((push_bit 4 (a mod 10) OR b mod 10) AND 15)
         = [digitChar (a mod 10), digitChar (b mod 10)]"
  by (simp only: high_nibble_pack low_nibble_pack toString_digit mod_less_divisor
        zero_less_numeral) simp

lemma bcdToFrequency_frequencyToBCD:
  assumes "f < 10000000000"
  shows "bcdToFrequency (frequencyToBCD f) = Num f"
proof -
  have "bcdToFrequency (frequencyToBCD f) = parseInt (digitsW 10 f)"
    unfolding frequencyToBCD_digits [OF assms] bcdToFrequency_def
    by (simp only: rev.simps append.simps foldl.simps nibble_text digitsW_10)
  also have "\<dots> = Num (f mod 10 ^ 10)"
    using parseInt_digitsW [of 9 f] by simp
  also have "\<dots> = Num f"
    using assms by simp
  finally show ?thesis .
qed


text \<open>
  Claim C1. For every integer \<open>f\<close> from 0 to 9,999,999,999, decoding the five packed-decimal
  bytes that \<open>frequencyToBCD\<close> produces for \<open>f\<close> gives \<open>f\<close> back:
  \<open>bcdToFrequency (frequencyToBCD f)\<close> is the number \<open>f\<close>, not \<^verbatim>\<open>NaN\<close>.
\<close>

theorem bcd_round_trip:
  "f \<le> 9999999999 \<Longrightarrow> bcdToFrequency (frequencyToBCD f) = Num f"
  by (rule bcdToFrequency_frequencyToBCD) simp

theorem bcd_round_trip_witness:
  "(14074000::nat) \<le> 9999999999 \<and> bcdToFrequency (frequencyToBCD 14074000) = Num 14074000"
  using bcd_round_trip [of 14074000] by simp

section \<open>Properties of frame decoding\<close>

lemma parseResponse_None_iff:
  "parseResponse data = None \<longleftrightarrow>
     (length data < 6 \<or> take 2 data \<noteq> [0xFE, 0xFE] \<or> last data \<noteq> 0xFD)"
proof (cases "length data < 6")
  case True
  then show ?thesis by (simp add: parseResponse_def)
next
  case False
  then obtain a b rest where d: "data = a # b # rest"
    by (cases data; cases "tl data") auto
  have "data \<noteq> []" using False by auto
  then have l: "last data = data ! (length data - 1)"
    by (rule last_conv_nth)
  show ?thesis
    using False unfolding l by (auto simp add: parseResponse_def d)
qed


text \<open>
  Claim C3. \<open>parseResponse\<close> returns its failure value exactly when the sequence is shorter
  than 6 bytes, or does not begin with \<^verbatim>\<open>FE FE\<close>, or does not end with \<^verbatim>\<open>FD\<close>; in every
  other case it returns a frame, whose command is the fifth byte and whose payload is what
  lies between the command byte and the terminator.
\<close>

theorem parseResponse_fails_iff:
  "(parseResponse data = None \<longleftrightarrow>
      (length data < 6 \<or> take 2 data \<noteq> [0xFE, 0xFE] \<or> last data \<noteq> 0xFD))
   \<and> (parseResponse data \<noteq> None \<longrightarrow>
        (\<exists>r. parseResponse data = Some r \<and> cmd r = data ! 4
             \<and> payload r = drop 5 (butlast data)))"
proof -
  have "parseResponse data \<noteq> None \<Longrightarrow>
          \<exists>r. parseResponse data = Some r \<and> cmd r = data ! 4 \<and> payload r = drop 5 (butlast data)"
    by (auto simp add: parseResponse_def butlast_conv_take split: if_splits)
  then show ?thesis
    using parseResponse_None_iff [of data] by blast
qed

theorem parseResponse_fails_iff_witness:
  "parseResponse [0xFE, 0xFE, 0xE0, 0x94, 0xFD] = None
   \<and> parseResponse [0xFE, 0xFD, 0xE0, 0x94, 0x03, 0xFD] = None
   \<and> parseResponse [0xFE, 0xFE, 0xE0, 0x94, 0x03, 0x00] = None
   \<and> (\<exists>r. parseResponse [0xFE, 0xFE, 0xE0, 0x94, 0xFB, 0xFD] = Some r \<and> cmd r = 0xFB
          \<and> payload r = [])"
  using parseResponse_fails_iff [of "[0xFE, 0xFE, 0xE0, 0x94, 0xFD]"]
    parseResponse_fails_iff [of "[0xFE, 0xFD, 0xE0, 0x94, 0x03, 0xFD]"]
    parseResponse_fails_iff [of "[0xFE, 0xFE, 0xE0, 0x94, 0x03, 0x00]"]
    parseResponse_fails_iff [of "[0xFE, 0xFE, 0xE0, 0x94, 0xFB, 0xFD]"]
  by simp

text \<open>
  Claim C4 says that the decoded destination is the third wire byte and the decoded source
  the fourth. \<open>buildCommand\<close> writes the destination third and the source fourth, but
  \<open>parseResponse\<close> reads the third byte into \<^verbatim>\<open>from\<close> and the fourth into \<^verbatim>\<open>to\<close>: for the
  radio's answer to a frequency query, sent by the radio \<^verbatim>\<open>94\<close> to the controller \<^verbatim>\<open>E0\<close>,
  the decoded source is \<^verbatim>\<open>E0\<close> and the decoded destination is \<^verbatim>\<open>94\<close>.
\<close>

theorem parseResponse_swaps_addresses:
  "buildCommand 0x94 CMD_READ_FREQ [] = [0xFE, 0xFE, 0x94, 0xE0, 0x03, 0xFD]
   \<and> parseResponse [0xFE, 0xFE, 0xE0, 0x94, 0x03, 0x00, 0x40, 0x07, 0x14, 0x00, 0xFD]
       = Some \<lparr> from_addr = 0xE0, to_addr = 0x94, cmd = 0x03,
                 payload = [0x00, 0x40, 0x07, 0x14, 0x00] \<rparr>"
  by (simp add: buildCommand_def CONTROLLER_ADDRESS_def CMD_READ_FREQ_def parseResponse_def)

theorem parseResponse_swaps_addresses_witness:
  "map_option from_addr
     (parseResponse [0xFE, 0xFE, 0xE0, 0x94, 0x03, 0x00, 0x40, 0x07, 0x14, 0x00, 0xFD]) = Some 0xE0
   \<and> map_option to_addr
     (parseResponse [0xFE, 0xFE, 0xE0, 0x94, 0x03, 0x00, 0x40, 0x07, 0x14, 0x00, 0xFD]) = Some 0x94"
  using parseResponse_swaps_addresses by simp

section \<open>Properties of the frame extractor\<close>

lemma scanFrom_Some:
  "scanFrom b n = Some i \<longleftrightarrow>
     (i \<le> n \<and> markerAt b i \<and> (\<forall>j. i < j \<and> j \<le> n \<longrightarrow> \<not> markerAt b j))"
proof (induction n)
  case 0
  then show ?case by (auto simp add: markerAt_def)
next
  case (Suc n)
  show ?case
  proof (cases "markerAt b (Suc n)")
    case True
    then have "scanFrom b (Suc n) = Some (Suc n)"
      by (simp add: markerAt_def)
    moreover have "(i \<le> Suc n \<and> markerAt b i \<and> (\<forall>j. i < j \<and> j \<le> Suc n \<longrightarrow> \<not> markerAt b j))
                    \<longleftrightarrow> i = Suc n"
      using True by (metis le_antisym not_less order_refl)
    ultimately show ?thesis by auto
  next
    case False
    then have "scanFrom b (Suc n) = scanFrom b n"
      by (auto simp add: markerAt_def)
    moreover have "(i \<le> Suc n \<and> markerAt b i \<and> (\<forall>j. i < j \<and> j \<le> Suc n \<longrightarrow> \<not> markerAt b j))
                    \<longleftrightarrow> (i \<le> n \<and> markerAt b i \<and> (\<forall>j. i < j \<and> j \<le> n \<longrightarrow> \<not> markerAt b j))"
      using False by (metis le_Suc_eq)
    ultimately show ?thesis using Suc.IH by simp
  qed
qed

lemma scanFrom_None:
  "scanFrom b n = None \<longleftrightarrow> (\<forall>j \<le> n. \<not> markerAt b j)"
proof (induction n)
  case 0
  then show ?case by (simp add: markerAt_def)
next
  case (Suc n)
  then show ?case
    by (auto simp add: markerAt_def le_Suc_eq)
qed


lemma findStart_noisyFrame: "findStart noisyFrame = Some 1"
  by code_simp

text \<open>
  Claim C2, as the source has it. When the appended byte is \<^verbatim>\<open>FD\<close> and the buffer then
  holds at least 6 bytes, the extractor takes the nearest \<^verbatim>\<open>FE FE\<close> marker before the
  terminator, hands the slice from that marker through the terminator to the handler as
  one packet and removes that slice from the buffer; the bytes in front of the marker stay
  in the buffer. Without a marker, and for every other byte, the buffer only grows by the
  byte. Fed \<^verbatim>\<open>AA FE FE 94 E0 03 00 00 00 00 00 FD\<close>, it yields exactly one packet, bytes 1 to
  11 of the input, and the buffer is left holding the noise byte \<^verbatim>\<open>AA\<close>.
\<close>

theorem extractor_step:
  "(let buf = buffer @ [b] in
      (b = 0xFD \<and> 6 \<le> length buf \<and> i \<le> length buf - 3 \<and> markerAt buf i
         \<and> (\<forall>j. i < j \<and> j \<le> length buf - 3 \<longrightarrow> \<not> markerAt buf j)
       \<longrightarrow> pushByte h (buffer, st) b = (take i buf, h st (drop i buf)))
    \<and> (b = 0xFD \<and> 6 \<le> length buf \<and> (\<forall>j \<le> length buf - 3. \<not> markerAt buf j)
       \<longrightarrow> pushByte h (buffer, st) b = (buf, st))
    \<and> (b \<noteq> 0xFD \<or> length buf < 6 \<longrightarrow> pushByte h (buffer, st) b = (buf, st)))
   \<and> readLoop collect [] [noisyFrame] = ([0xAA], [drop 1 noisyFrame])"
proof -
  let ?buf = "buffer @ [b]"
  have found: "pushByte h (buffer, st) b = (take i ?buf, h st (drop i ?buf))"
    if "b = 0xFD" "6 \<le> length ?buf" "i \<le> length ?buf - 3" "markerAt ?buf i"
       "\<forall>j. i < j \<and> j \<le> length ?buf - 3 \<longrightarrow> \<not> markerAt ?buf j"
  proof -
    have "scanFrom ?buf (length ?buf - 3) = Some i"
      using that(3,4,5) scanFrom_Some [of ?buf "length ?buf - 3" i] by blast
    then have "findStart ?buf = Some i"
      using that(2) by (simp add: findStart_def)
    then show ?thesis
      using that(1,2) by (simp add: pushByte_def)
  qed
  have missing: "pushByte h (buffer, st) b = (?buf, st)"
    if "b = 0xFD" "6 \<le> length ?buf" "\<forall>j \<le> length ?buf - 3. \<not> markerAt ?buf j"
  proof -
    have "scanFrom ?buf (length ?buf - 3) = None"
      using that(3) scanFrom_None [of ?buf "length ?buf - 3"] by blast
    then have "findStart ?buf = None"
      by (simp add: findStart_def)
    then show ?thesis
      using that(1,2) by (simp add: pushByte_def)
  qed
  have other: "pushByte h (buffer, st) b = (?buf, st)" if "b \<noteq> 0xFD \<or> length ?buf < 6"
    using that by (auto simp add: pushByte_def)
  have example: "readLoop collect [] [noisyFrame] = ([0xAA], [drop 1 noisyFrame])"
    by code_simp
  show ?thesis
    unfolding Let_def using found missing other example by blast
qed

theorem extractor_step_witness:
  "pushByte collect (butlast noisyFrame, []) 0xFD = ([0xAA], [drop 1 noisyFrame])
   \<and> pushByte collect ([0x01, 0x02, 0x03, 0x04, 0x05], []) 0xFD
       = ([0x01, 0x02, 0x03, 0x04, 0x05, 0xFD], [])
   \<and> pushByte collect ([0xFE, 0xFE], []) 0x94 = ([0xFE, 0xFE, 0x94], [])"
proof -
  have nf: "butlast noisyFrame @ [0xFD] = noisyFrame"
    by (simp add: noisyFrame_def)
  have "scanFrom noisyFrame (length noisyFrame - 3) = Some 1"
    using findStart_noisyFrame by (simp add: findStart_def noisyFrame_def)
  then have near: "1 \<le> length noisyFrame - 3 \<and> markerAt noisyFrame 1
      \<and> (\<forall>j. 1 < j \<and> j \<le> length noisyFrame - 3 \<longrightarrow> \<not> markerAt noisyFrame j)"
    using scanFrom_Some [of noisyFrame "length noisyFrame - 3" 1] by blast
  have len: "6 \<le> length noisyFrame"
    by (simp add: noisyFrame_def)
  have first: "pushByte collect (butlast noisyFrame, []) 0xFD = ([0xAA], [drop 1 noisyFrame])"
    using extractor_step [of "butlast noisyFrame" "0xFD" 1 collect "[]"] near len
    unfolding Let_def nf by (simp add: noisyFrame_def collect_def)
  have "scanFrom [0x01, 0x02, 0x03, 0x04, 0x05, 0xFD] 3 = None"
    by code_simp
  then have none: "\<forall>j \<le> 3. \<not> markerAt [0x01, 0x02, 0x03, 0x04, 0x05, 0xFD] j"
    using scanFrom_None [of "[0x01, 0x02, 0x03, 0x04, 0x05, 0xFD]" 3] by blast
  have second: "pushByte collect ([0x01, 0x02, 0x03, 0x04, 0x05], []) 0xFD
      = ([0x01, 0x02, 0x03, 0x04, 0x05, 0xFD], [])"
    using extractor_step [of "[0x01, 0x02, 0x03, 0x04, 0x05]" "0xFD" 0 collect "[]"] none
    unfolding Let_def by simp
  have third: "pushByte collect ([0xFE, 0xFE], []) 0x94 = ([0xFE, 0xFE, 0x94], [])"
    using extractor_step [of "[0xFE, 0xFE]" "0x94" 0 collect "[]"]
    unfolding Let_def by simp
  show ?thesis
    using first second third by simp
qed

text \<open>
  Claim C2 as stated has the noise byte discarded from the buffer. It is not: after the
  example input the buffer is not empty, it holds \<^verbatim>\<open>AA\<close>.
\<close>

theorem extractor_keeps_noise:
  "fst (readLoop collect [] [noisyFrame]) = [0xAA]
   \<and> fst (readLoop collect [] [noisyFrame]) \<noteq> []
   \<and> snd (readLoop collect [] [noisyFrame]) = [drop 1 noisyFrame]"
  by code_simp

section \<open>Properties of the state tracker\<close>

lemma pttActive_logMsg [simp]: "pttActive (logMsg e s) = pttActive s"
  by (simp add: logMsg_def Let_def)

lemma handleMeter_discard:
  assumes "payload r \<noteq> []"
    and "(payload r ! 0 = 0x02 \<and> pttActive s) \<or> (payload r ! 0 = 0x11 \<and> \<not> pttActive s)"
  shows "handleMeter r s = s"
  using assms by (auto simp add: handleMeter_def Let_def)

text \<open>
  Claim C8. A meter response with sub-command \<^verbatim>\<open>02\<close> (S-meter) that arrives while
  \<open>pttActive\<close> is true, and one with sub-command \<^verbatim>\<open>11\<close> (power meter) that arrives while
  it is false, is discarded: \<open>handleResponse\<close> writes its \<^verbatim>\<open>RX\<close> line to the log and
  changes nothing else, so the meter shown, the PTT flag and the tracked frequency and mode
  are as before.
\<close>

theorem wrong_state_meter_discarded:
  assumes "parseResponse data = Some r"
    and "cmd r = CMD_READ_SMETER"
    and "payload r \<noteq> []"
    and "(payload r ! 0 = 0x02 \<and> pttActive s) \<or> (payload r ! 0 = 0x11 \<and> \<not> pttActive s)"
  shows "handleResponse s data = s\<lparr> logDiv := logDiv (logMsg (LogRX data) s) \<rparr>
         \<and> meter (handleResponse s data) = meter s
         \<and> pttActive (handleResponse s data) = pttActive s
         \<and> lastFrequencyHz (handleResponse s data) = lastFrequencyHz s
         \<and> lastModeCode (handleResponse s data) = lastModeCode s"
proof -
  have "handleMeter r (logMsg (LogRX data) s) = logMsg (LogRX data) s"
    using assms(3,4) by (intro handleMeter_discard) simp_all
  then have "handleResponse s data = logMsg (LogRX data) s"
    using assms(1,2)
    by (simp add: handleResponse_def Let_def CMD_READ_SMETER_def CMD_READ_FREQ_def
          CMD_READ_MODE_def CMD_READ_OPERATING_STATUS_def)
  then show ?thesis
    by (simp add: logMsg_def Let_def)
qed


theorem wrong_state_meter_discarded_witness:
  "meter (handleResponse (demoRadio\<lparr> pttActive := True \<rparr>)
            [0xFE, 0xFE, 0xE0, 0x94, 0x15, 0x02, 0x00, 0x78, 0xFD]) = None
   \<and> meter (handleResponse demoRadio [0xFE, 0xFE, 0xE0, 0x94, 0x15, 0x11, 0x00, 0x80, 0xFD]) = None"
proof -
  let ?r1 = "\<lparr> from_addr = 0xE0, to_addr = 0x94, cmd = 0x15, payload = [0x02, 0x00, 0x78] \<rparr>"
  let ?r2 = "\<lparr> from_addr = 0xE0, to_addr = 0x94, cmd = 0x15, payload = [0x11, 0x00, 0x80] \<rparr>"
  have p1: "parseResponse [0xFE, 0xFE, 0xE0, 0x94, 0x15, 0x02, 0x00, 0x78, 0xFD] = Some ?r1"
    by (simp add: parseResponse_def)
  have p2: "parseResponse [0xFE, 0xFE, 0xE0, 0x94, 0x15, 0x11, 0x00, 0x80, 0xFD] = Some ?r2"
    by (simp add: parseResponse_def)
  have a: "meter (handleResponse (demoRadio\<lparr> pttActive := True \<rparr>)
            [0xFE, 0xFE, 0xE0, 0x94, 0x15, 0x02, 0x00, 0x78, 0xFD]) = None"
    using wrong_state_meter_discarded [OF p1, of "demoRadio\<lparr> pttActive := True \<rparr>"]
    by (simp add: CMD_READ_SMETER_def demoRadio_def)
  have b: "meter (handleResponse demoRadio
            [0xFE, 0xFE, 0xE0, 0x94, 0x15, 0x11, 0x00, 0x80, 0xFD]) = None"
    using wrong_state_meter_discarded [OF p2, of demoRadio]
    by (simp add: CMD_READ_SMETER_def demoRadio_def)
  show ?thesis using a b by simp
qed


section \<open>Properties of the telemetry notifier\<close>

lemma guarded_logMsg: "telemetryGuarded (logMsg e s) = telemetryGuarded s"
  by (simp add: telemetryGuarded_def logMsg_def Let_def)

lemma guarded_handleFrequency: "telemetryGuarded s \<Longrightarrow> telemetryGuarded (handleFrequency r s)"
  by (auto simp add: telemetryGuarded_def handleFrequency_def onRadioStateChanged_def
        logMsg_def Let_def split: option.splits)

lemma guarded_handleMode: "telemetryGuarded s \<Longrightarrow> telemetryGuarded (handleMode r s)"
  by (auto simp add: telemetryGuarded_def handleMode_def onRadioStateChanged_def
        logMsg_def Let_def split: option.splits)

lemma guarded_handleMeter: "telemetryGuarded s \<Longrightarrow> telemetryGuarded (handleMeter r s)"
  by (auto simp add: telemetryGuarded_def handleMeter_def updateBargraph_def Let_def)

lemma guarded_handleOperatingStatus:
  "telemetryGuarded s \<Longrightarrow> telemetryGuarded (handleOperatingStatus r s)"
  by (auto simp add: telemetryGuarded_def handleOperatingStatus_def logMsg_def Let_def)

lemma guarded_handleResponse: "telemetryGuarded s \<Longrightarrow> telemetryGuarded (handleResponse s data)"
  unfolding handleResponse_def Let_def
  by (simp add: guarded_logMsg guarded_handleFrequency guarded_handleMode
        guarded_handleMeter guarded_handleOperatingStatus split: option.splits)

lemma guarded_elapse: "telemetryGuarded s \<Longrightarrow> telemetryGuarded (elapse dt s)"
  by (auto simp add: telemetryGuarded_def elapse_def wavelogTimeout_def sendToWavelog_def
        Let_def split: option.splits)

lemma guarded_exec: "telemetryGuarded s \<Longrightarrow> telemetryGuarded (exec s evs)"
  unfolding exec_def
proof (induction evs arbitrary: s)
  case Nil
  then show ?case by simp
next
  case (Cons ev evs)
  have "telemetryGuarded (step s ev)"
    using Cons.prems by (cases ev) (simp_all add: guarded_handleResponse guarded_elapse)
  then show ?case
    using Cons.IH by simp
qed

lemma guarded_startup: "telemetryGuarded (startup s)"
  by (simp add: telemetryGuarded_def startup_def)

lemma handleResponse_change:
  assumes "changeEvent s d" and "telemetryReady s"
  shows "wavelogDebounceTimer (handleResponse s d) = Some (now s + 500)
       \<and> wavelogPosts (handleResponse s d) = wavelogPosts s
       \<and> now (handleResponse s d) = now s
       \<and> WAVELOG_URL (handleResponse s d) = WAVELOG_URL s
       \<and> WAVELOG_API_KEY (handleResponse s d) = WAVELOG_API_KEY s
       \<and> telemetryReady (handleResponse s d)"
proof -
  obtain r where r: "parseResponse d = Some r"
    using assms(1) by (auto simp add: changeEvent_def split: option.splits)
  consider (freq) "cmd r = CMD_READ_FREQ" "length (payload r) \<ge> 5"
      "\<exists>l. lastFrequencyHz s = Some l
          \<and> strictNeq l (bcdToFrequency (map unat (take 5 (payload r))))"
    | (mode) "cmd r = CMD_READ_MODE" "length (payload r) \<ge> 1"
      "\<exists>l. lastModeCode s = Some l \<and> l \<noteq> payload r ! 0"
    using assms(1) r by (auto simp add: changeEvent_def split: option.splits)
  then show ?thesis
  proof cases
    case freq
    then show ?thesis
      using r assms(2)
      by (auto simp add: handleResponse_def handleFrequency_def onRadioStateChanged_def
            telemetryReady_def logMsg_def Let_def WAVELOG_DEBOUNCE_MS_def
            CMD_READ_FREQ_def CMD_READ_MODE_def CMD_READ_SMETER_def
            CMD_READ_OPERATING_STATUS_def)
  next
    case mode
    then show ?thesis
      using r assms(2)
      by (auto simp add: handleResponse_def handleMode_def onRadioStateChanged_def
            telemetryReady_def logMsg_def Let_def WAVELOG_DEBOUNCE_MS_def
            CMD_READ_FREQ_def CMD_READ_MODE_def CMD_READ_SMETER_def
            CMD_READ_OPERATING_STATUS_def)
  qed
qed

lemma elapse_before:
  assumes "wavelogDebounceTimer s = Some due" and "now s + dt < due"
  shows "elapse dt s = s\<lparr> now := now s + dt \<rparr>"
  using assms by (simp add: elapse_def)

lemma elapse_fire:
  assumes "wavelogDebounceTimer s = Some due" and "now s \<le> due" and "due \<le> now s + dt"
    and "telemetryReady s"
  shows "wavelogPosts (elapse dt s) = wavelogPosts s @
           [\<lparr> postTime = due, argFrequency = lastFrequencyHz s, argMode = lastModeCode s,
              postUrl = stripSlash (WAVELOG_URL s) @ ''/index.php/api/radio'',
              postKey = WAVELOG_API_KEY s, postRadio = ''IC-7300'',
              postModeName = wavelogModeName (lastModeCode s) \<rparr>]
       \<and> wavelogDebounceTimer (elapse dt s) = None"
  using assms
  by (simp add: elapse_def wavelogTimeout_def sendToWavelog_def telemetryReady_def Let_def
        max_def)

lemma burst_step:
  assumes "telemetryReady s" and "wavelogDebounceTimer s = Some (now s + 500)"
    and "changeEvent (elapse 100 s) d"
  shows "wavelogDebounceTimer (handleResponse (elapse 100 s) d) = Some (now s + 600)
       \<and> wavelogPosts (handleResponse (elapse 100 s) d) = wavelogPosts s
       \<and> now (handleResponse (elapse 100 s) d) = now s + 100
       \<and> WAVELOG_URL (handleResponse (elapse 100 s) d) = WAVELOG_URL s
       \<and> WAVELOG_API_KEY (handleResponse (elapse 100 s) d) = WAVELOG_API_KEY s
       \<and> telemetryReady (handleResponse (elapse 100 s) d)"
proof -
  have e: "elapse 100 s = s\<lparr> now := now s + 100 \<rparr>"
    using assms(2) by (intro elapse_before [where due = "now s + 500"]) simp_all
  have "telemetryReady (elapse 100 s)"
    using assms(1) unfolding e by (simp add: telemetryReady_def)
  from handleResponse_change [OF assms(3) this] show ?thesis
    unfolding e by simp
qed


lemma packed_byte_bound:
  fixes h l :: nat
  assumes "h < 10" "l < 10"
  shows "push_bit 4 h OR l < 256"
proof -
  have "take_bit 8 (push_bit 4 h OR l) = push_bit 4 h OR l"
    using assms by (simp add: take_bit_or take_bit_push_bit take_bit_nat_eq_self)
  then have "push_bit 4 h OR l < 2 ^ 8"
    by (simp only: take_bit_nat_eq_self_iff)
  then show ?thesis by simp
qed

lemma frequencyToBCD_bytes:
  assumes "f < 10000000000"
  shows "\<forall>x \<in> set (frequencyToBCD f). x < 256"
  unfolding frequencyToBCD_digits [OF assms]
  by (simp add: packed_byte_bound)

lemma bcd_bytes_back:
  assumes "f < 10000000000"
  shows "map (unat \<circ> (of_nat :: nat \<Rightarrow> byte)) (frequencyToBCD f) = frequencyToBCD f"
proof (rule map_idI)
  fix x assume "x \<in> set (frequencyToBCD f)"
  then have "x < 256"
    using frequencyToBCD_bytes [OF assms] by blast
  then show "(unat \<circ> (of_nat :: nat \<Rightarrow> byte)) x = x"
    by (simp add: unat_of_nat)
qed

lemma length_frequencyToBCD: "length (frequencyToBCD f) = 5"
  by (simp add: frequencyToBCD_def)

lemma payload_round_trip:
  assumes "f < 10000000000"
  shows "bcdToFrequency (map unat (take 5 (map of_nat (frequencyToBCD f) :: byte list))) = Num f"
  using bcdToFrequency_frequencyToBCD [OF assms] bcd_bytes_back [OF assms]
  by (simp add: length_frequencyToBCD)

lemma parseResponse_freqResponse:
  "parseResponse (freqResponse addr f)
     = Some \<lparr> from_addr = 0xE0, to_addr = addr, cmd = 0x03,
              payload = map of_nat (frequencyToBCD f) \<rparr>"
  by (simp add: parseResponse_def freqResponse_def length_frequencyToBCD nth_append
        CONTROLLER_ADDRESS_def CMD_READ_FREQ_def)

lemma parseResponse_modeResponse:
  "parseResponse (modeResponse addr m fl)
     = Some \<lparr> from_addr = 0xE0, to_addr = addr, cmd = 0x04, payload = [m, fl] \<rparr>"
  by (simp add: parseResponse_def modeResponse_def CONTROLLER_ADDRESS_def CMD_READ_MODE_def)

lemma changeEvent_freqResponse:
  assumes "f < 10000000000"
  shows "changeEvent s (freqResponse addr f)
           = (case lastFrequencyHz s of None \<Rightarrow> False | Some l \<Rightarrow> strictNeq l (Num f))"
  by (simp add: changeEvent_def parseResponse_freqResponse
        bcdToFrequency_frequencyToBCD [OF assms] bcd_bytes_back [OF assms]
        length_frequencyToBCD CMD_READ_FREQ_def CMD_READ_MODE_def split: option.splits)

lemma changeEvent_modeResponse:
  "changeEvent s (modeResponse addr m fl)
     = (case lastModeCode s of None \<Rightarrow> False | Some l \<Rightarrow> l \<noteq> m)"
  by (simp add: changeEvent_def parseResponse_modeResponse CMD_READ_FREQ_def CMD_READ_MODE_def
        split: option.splits)

lemma handleResponse_freqResponse:
  assumes "f < 10000000000"
  shows "lastFrequencyHz (handleResponse s (freqResponse addr f)) = Some (Num f)
       \<and> lastModeCode (handleResponse s (freqResponse addr f)) = lastModeCode s"
  by (simp add: handleResponse_def parseResponse_freqResponse handleFrequency_def
        bcdToFrequency_frequencyToBCD [OF assms] bcd_bytes_back [OF assms]
        length_frequencyToBCD onRadioStateChanged_def
        logMsg_def Let_def CMD_READ_FREQ_def CMD_READ_MODE_def CMD_READ_SMETER_def
        CMD_READ_OPERATING_STATUS_def split: option.splits)

lemma handleResponse_modeResponse:
  "lastModeCode (handleResponse s (modeResponse addr m fl)) = Some m
   \<and> lastFrequencyHz (handleResponse s (modeResponse addr m fl)) = lastFrequencyHz s"
  by (simp add: handleResponse_def parseResponse_modeResponse handleMode_def
        onRadioStateChanged_def logMsg_def Let_def CMD_READ_FREQ_def CMD_READ_MODE_def
        CMD_READ_SMETER_def CMD_READ_OPERATING_STATUS_def split: option.splits)

lemma elapse_keeps_values:
  "lastFrequencyHz (elapse dt s) = lastFrequencyHz s
   \<and> lastModeCode (elapse dt s) = lastModeCode s"
  by (simp add: elapse_def wavelogTimeout_def sendToWavelog_def Let_def split: option.splits)


text \<open>
  Claim C9. With telemetry switched on and both values known, five change events at
  t = 0, 100, 200, 300 and 400 ms each set the debounce timeout anew, to 500 ms after the
  event; no report is sent while they arrive; in the silence that follows nothing is sent
  before 500 ms have passed, and once they have, exactly one report has been sent, at
  t = 900 ms, carrying the frequency and mode as they stand after the event at t = 400 ms.
  Times are counted from \<open>now s\<close>.
\<close>

theorem debounce_five_events:
  assumes "telemetryReady s"
    and "changeEvents s
           [Received d0, Elapsed 100, Received d1, Elapsed 100, Received d2, Elapsed 100,
            Received d3, Elapsed 100, Received d4]"
  shows "let s' = exec s [Received d0, Elapsed 100, Received d1, Elapsed 100, Received d2,
                          Elapsed 100, Received d3, Elapsed 100, Received d4]
         in wavelogDebounceTimer (exec s [Received d0]) = Some (now s + 500)
          \<and> wavelogDebounceTimer (exec s [Received d0, Elapsed 100, Received d1])
               = Some (now s + 600)
          \<and> wavelogDebounceTimer
               (exec s [Received d0, Elapsed 100, Received d1, Elapsed 100, Received d2])
               = Some (now s + 700)
          \<and> wavelogDebounceTimer
               (exec s [Received d0, Elapsed 100, Received d1, Elapsed 100, Received d2,
                        Elapsed 100, Received d3])
               = Some (now s + 800)
          \<and> wavelogDebounceTimer s' = Some (now s + 900)
          \<and> now s' = now s + 400
          \<and> wavelogPosts s' = wavelogPosts s
          \<and> (\<forall>T < 500. wavelogPosts (elapse T s') = wavelogPosts s)
          \<and> (\<forall>T \<ge> 500.
                wavelogPosts (elapse T s') = wavelogPosts s @
                  [\<lparr> postTime = now s + 900, argFrequency = lastFrequencyHz s',
                     argMode = lastModeCode s',
                     postUrl = stripSlash (WAVELOG_URL s) @ ''/index.php/api/radio'',
                     postKey = WAVELOG_API_KEY s, postRadio = ''IC-7300'',
                     postModeName = wavelogModeName (lastModeCode s') \<rparr>]
                \<and> wavelogDebounceTimer (elapse T s') = None)"
proof -
  define a0 where "a0 = handleResponse s d0"
  define a1 where "a1 = handleResponse (elapse 100 a0) d1"
  define a2 where "a2 = handleResponse (elapse 100 a1) d2"
  define a3 where "a3 = handleResponse (elapse 100 a2) d3"
  define a4 where "a4 = handleResponse (elapse 100 a3) d4"
  have ce: "changeEvent s d0" "changeEvent (elapse 100 a0) d1" "changeEvent (elapse 100 a1) d2"
    "changeEvent (elapse 100 a2) d3" "changeEvent (elapse 100 a3) d4"
    using assms(2) by (simp_all add: a0_def a1_def a2_def a3_def)
  have f0: "wavelogDebounceTimer a0 = Some (now a0 + 500) \<and> wavelogPosts a0 = wavelogPosts s
      \<and> now a0 = now s \<and> WAVELOG_URL a0 = WAVELOG_URL s
      \<and> WAVELOG_API_KEY a0 = WAVELOG_API_KEY s \<and> telemetryReady a0"
    using handleResponse_change [OF ce(1) assms(1)] by (simp add: a0_def)
  have f1: "wavelogDebounceTimer a1 = Some (now a1 + 500) \<and> wavelogPosts a1 = wavelogPosts s
      \<and> now a1 = now s + 100 \<and> WAVELOG_URL a1 = WAVELOG_URL s
      \<and> WAVELOG_API_KEY a1 = WAVELOG_API_KEY s \<and> telemetryReady a1"
    using burst_step [of a0 d1] ce(2) f0 by (simp add: a1_def)
  have f2: "wavelogDebounceTimer a2 = Some (now a2 + 500) \<and> wavelogPosts a2 = wavelogPosts s
      \<and> now a2 = now s + 200 \<and> WAVELOG_URL a2 = WAVELOG_URL s
      \<and> WAVELOG_API_KEY a2 = WAVELOG_API_KEY s \<and> telemetryReady a2"
    using burst_step [of a1 d2] ce(3) f1 by (simp add: a2_def)
  have f3: "wavelogDebounceTimer a3 = Some (now a3 + 500) \<and> wavelogPosts a3 = wavelogPosts s
      \<and> now a3 = now s + 300 \<and> WAVELOG_URL a3 = WAVELOG_URL s
      \<and> WAVELOG_API_KEY a3 = WAVELOG_API_KEY s \<and> telemetryReady a3"
    using burst_step [of a2 d3] ce(4) f2 by (simp add: a3_def)
  have f4: "wavelogDebounceTimer a4 = Some (now a4 + 500) \<and> wavelogPosts a4 = wavelogPosts s
      \<and> now a4 = now s + 400 \<and> WAVELOG_URL a4 = WAVELOG_URL s
      \<and> WAVELOG_API_KEY a4 = WAVELOG_API_KEY s \<and> telemetryReady a4"
    using burst_step [of a3 d4] ce(5) f3 by (simp add: a4_def)
  have quiet: "wavelogPosts (elapse T a4) = wavelogPosts s" if "T < 500" for T
  proof -
    have "elapse T a4 = a4\<lparr> now := now a4 + T \<rparr>"
      using f4 that by (intro elapse_before [where due = "now a4 + 500"]) simp_all
    then show ?thesis using f4 by simp
  qed
  have fire: "wavelogPosts (elapse T a4) = wavelogPosts s @
                  [\<lparr> postTime = now s + 900, argFrequency = lastFrequencyHz a4,
                     argMode = lastModeCode a4,
                     postUrl = stripSlash (WAVELOG_URL s) @ ''/index.php/api/radio'',
                     postKey = WAVELOG_API_KEY s, postRadio = ''IC-7300'',
                     postModeName = wavelogModeName (lastModeCode a4) \<rparr>]
                \<and> wavelogDebounceTimer (elapse T a4) = None" if "500 \<le> T" for T
    using elapse_fire [of a4 "now a4 + 500" T] f4 that by simp
  have e0: "exec s [Received d0] = a0"
    by (simp add: exec_def a0_def)
  have e1: "exec s [Received d0, Elapsed 100, Received d1] = a1"
    by (simp add: exec_def a0_def a1_def)
  have e2: "exec s [Received d0, Elapsed 100, Received d1, Elapsed 100, Received d2] = a2"
    by (simp add: exec_def a0_def a1_def a2_def)
  have e3: "exec s [Received d0, Elapsed 100, Received d1, Elapsed 100, Received d2,
                    Elapsed 100, Received d3] = a3"
    by (simp add: exec_def a0_def a1_def a2_def a3_def)
  have e4: "exec s [Received d0, Elapsed 100, Received d1, Elapsed 100, Received d2,
                    Elapsed 100, Received d3, Elapsed 100, Received d4] = a4"
    by (simp add: exec_def a0_def a1_def a2_def a3_def a4_def)
  show ?thesis
    unfolding Let_def e0 e1 e2 e3 e4
    using f0 f1 f2 f3 f4 quiet fire by simp
qed


theorem debounce_five_events_witness:
  "wavelogPosts (elapse 500 (exec demoRadio demoBurst))
     = [\<lparr> postTime = 900, argFrequency = Some (Num 7030100), argMode = Some 0x03,
          postUrl = ''https://log.example/index.php/api/radio'', postKey = ''k1'',
          postRadio = ''IC-7300'', postModeName = ''CW'' \<rparr>]
   \<and> wavelogPosts (elapse 499 (exec demoRadio demoBurst)) = []"
proof -
  have ready: "telemetryReady demoRadio"
    by (simp add: telemetryReady_def demoRadio_def)
  have ce: "changeEvents demoRadio
     [Received (freqResponse 0x94 14074100), Elapsed 100,
      Received (freqResponse 0x94 14074200), Elapsed 100,
      Received (modeResponse 0x94 0x03 0x01), Elapsed 100,
      Received (freqResponse 0x94 7030000), Elapsed 100,
      Received (freqResponse 0x94 7030100)]"
    by (simp add: changeEvent_freqResponse changeEvent_modeResponse handleResponse_freqResponse
          handleResponse_modeResponse elapse_keeps_values strictNeq_def demoRadio_def)
  have lf: "lastFrequencyHz (exec demoRadio demoBurst) = Some (Num 7030100)"
    by (simp add: exec_def demoBurst_def handleResponse_freqResponse)
  have lm: "lastModeCode (exec demoRadio demoBurst) = Some 0x03"
    by (simp add: exec_def demoBurst_def handleResponse_freqResponse
          handleResponse_modeResponse elapse_keeps_values)
  have cfg: "now demoRadio = 0" "wavelogPosts demoRadio = []"
    "stripSlash (WAVELOG_URL demoRadio) = ''https://log.example''"
    "WAVELOG_API_KEY demoRadio = ''k1''" "wavelogModeName (Some 0x03) = ''CW''"
    by (simp_all add: demoRadio_def stripSlash_def wavelogModeName_def modeMap_def)
  show ?thesis
    using debounce_five_events [OF ready ce]
    unfolding Let_def demoBurst_def [symmetric] lf lm cfg
    by simp
qed


lemma logMsg_keeps_settings:
  "WAVELOG_ENABLED (logMsg e s) = WAVELOG_ENABLED s
   \<and> WAVELOG_URL (logMsg e s) = WAVELOG_URL s
   \<and> WAVELOG_API_KEY (logMsg e s) = WAVELOG_API_KEY s
   \<and> now (logMsg e s) = now s"
  by (simp add: logMsg_def Let_def)

lemma handleFrequency_keeps_settings:
  "WAVELOG_ENABLED (handleFrequency r s) = WAVELOG_ENABLED s
   \<and> WAVELOG_URL (handleFrequency r s) = WAVELOG_URL s
   \<and> WAVELOG_API_KEY (handleFrequency r s) = WAVELOG_API_KEY s
   \<and> now (handleFrequency r s) = now s"
  by (simp add: handleFrequency_def onRadioStateChanged_def logMsg_def Let_def
        split: option.splits)

lemma handleMode_keeps_settings:
  "WAVELOG_ENABLED (handleMode r s) = WAVELOG_ENABLED s
   \<and> WAVELOG_URL (handleMode r s) = WAVELOG_URL s
   \<and> WAVELOG_API_KEY (handleMode r s) = WAVELOG_API_KEY s
   \<and> now (handleMode r s) = now s"
  by (simp add: handleMode_def onRadioStateChanged_def logMsg_def Let_def
        split: option.splits)

lemma handleMeter_keeps_settings:
  "WAVELOG_ENABLED (handleMeter r s) = WAVELOG_ENABLED s
   \<and> WAVELOG_URL (handleMeter r s) = WAVELOG_URL s
   \<and> WAVELOG_API_KEY (handleMeter r s) = WAVELOG_API_KEY s
   \<and> now (handleMeter r s) = now s"
  by (simp add: handleMeter_def updateBargraph_def Let_def)

lemma handleOperatingStatus_keeps_settings:
  "WAVELOG_ENABLED (handleOperatingStatus r s) = WAVELOG_ENABLED s
   \<and> WAVELOG_URL (handleOperatingStatus r s) = WAVELOG_URL s
   \<and> WAVELOG_API_KEY (handleOperatingStatus r s) = WAVELOG_API_KEY s
   \<and> now (handleOperatingStatus r s) = now s"
  by (simp add: handleOperatingStatus_def logMsg_def Let_def)

lemma handleResponse_keeps_settings:
  "WAVELOG_ENABLED (handleResponse s d) = WAVELOG_ENABLED s
   \<and> WAVELOG_URL (handleResponse s d) = WAVELOG_URL s
   \<and> WAVELOG_API_KEY (handleResponse s d) = WAVELOG_API_KEY s
   \<and> now (handleResponse s d) = now s"
  unfolding handleResponse_def Let_def
  by (simp add: logMsg_keeps_settings handleFrequency_keeps_settings
        handleMode_keeps_settings handleMeter_keeps_settings
        handleOperatingStatus_keeps_settings split: option.splits)

text \<open>
  Claim C10. Starting from the state in which the script loads, after any sequence of
  received packets and waiting times: a debounce timeout is pending, or a telemetry
  request has been issued, only if a frequency and a mode have both been decoded; and
  every telemetry request issued carries a frequency and a mode code that are not
  \<^verbatim>\<open>null\<close>.
\<close>

theorem telemetry_needs_both_values:
  "let s' = exec (startup s) evs
   in ((wavelogDebounceTimer s' \<noteq> None \<or> wavelogPosts s' \<noteq> [])
         \<longrightarrow> lastFrequencyHz s' \<noteq> None \<and> lastModeCode s' \<noteq> None)
      \<and> (\<forall>p \<in> set (wavelogPosts s'). argFrequency p \<noteq> None \<and> argMode p \<noteq> None)"
  using guarded_exec [OF guarded_startup, of s evs]
  unfolding telemetryGuarded_def Let_def .



theorem telemetry_needs_both_values_witness:
  "wavelogPosts (exec (startup demoRadio)
       [Received (freqResponse 0x94 14074000), Received (modeResponse 0x94 0x01 0x01),
        Received (freqResponse 0x94 14074100), Elapsed 500]) \<noteq> []
   \<and> argFrequency (hd (wavelogPosts (exec (startup demoRadio)
       [Received (freqResponse 0x94 14074000), Received (modeResponse 0x94 0x01 0x01),
        Received (freqResponse 0x94 14074100), Elapsed 500]))) \<noteq> None
   \<and> argMode (hd (wavelogPosts (exec (startup demoRadio)
       [Received (freqResponse 0x94 14074000), Received (modeResponse 0x94 0x01 0x01),
        Received (freqResponse 0x94 14074100), Elapsed 500]))) \<noteq> None
   \<and> wavelogDebounceTimer (exec (startup demoRadio)
       [Received (freqResponse 0x94 14074000), Received (freqResponse 0x94 14074100)]) = None
   \<and> lastModeCode (exec (startup demoRadio)
       [Received (freqResponse 0x94 14074000), Received (freqResponse 0x94 14074100)]) = None"
proof -
  define a where "a = handleResponse (handleResponse (startup demoRadio)
      (freqResponse 0x94 14074000)) (modeResponse 0x94 0x01 0x01)"
  have ra: "telemetryReady a"
    by (simp add: a_def telemetryReady_def handleResponse_keeps_settings
          handleResponse_freqResponse handleResponse_modeResponse)
       (simp add: startup_def demoRadio_def)
  have ca: "changeEvent a (freqResponse 0x94 14074100)"
    by (simp add: a_def changeEvent_freqResponse handleResponse_freqResponse
          handleResponse_modeResponse strictNeq_def)
  define b where "b = handleResponse a (freqResponse 0x94 14074100)"
  have tb: "wavelogDebounceTimer b = Some (now b + 500)" and rb: "telemetryReady b"
    using handleResponse_change [OF ca ra] by (simp_all add: b_def)
  have "wavelogPosts (elapse 500 b) \<noteq> []"
    using elapse_fire [OF tb _ _ rb, of 500] by simp
  moreover have "exec (startup demoRadio)
       [Received (freqResponse 0x94 14074000), Received (modeResponse 0x94 0x01 0x01),
        Received (freqResponse 0x94 14074100), Elapsed 500] = elapse 500 b"
    by (simp add: exec_def a_def b_def)
  ultimately have sent: "wavelogPosts (exec (startup demoRadio)
       [Received (freqResponse 0x94 14074000), Received (modeResponse 0x94 0x01 0x01),
        Received (freqResponse 0x94 14074100), Elapsed 500]) \<noteq> []"
    by simp
  have "\<forall>p \<in> set (wavelogPosts (exec (startup demoRadio)
       [Received (freqResponse 0x94 14074000), Received (modeResponse 0x94 0x01 0x01),
        Received (freqResponse 0x94 14074100), Elapsed 500])).
        argFrequency p \<noteq> None \<and> argMode p \<noteq> None"
    using telemetry_needs_both_values [of demoRadio
       "[Received (freqResponse 0x94 14074000), Received (modeResponse 0x94 0x01 0x01),
        Received (freqResponse 0x94 14074100), Elapsed 500]"]
    unfolding Let_def by blast
  then have carried: "argFrequency (hd (wavelogPosts (exec (startup demoRadio)
       [Received (freqResponse 0x94 14074000), Received (modeResponse 0x94 0x01 0x01),
        Received (freqResponse 0x94 14074100), Elapsed 500]))) \<noteq> None
      \<and> argMode (hd (wavelogPosts (exec (startup demoRadio)
       [Received (freqResponse 0x94 14074000), Received (modeResponse 0x94 0x01 0x01),
        Received (freqResponse 0x94 14074100), Elapsed 500]))) \<noteq> None"
    using sent hd_in_set by blast
  have nomode: "lastModeCode (exec (startup demoRadio)
       [Received (freqResponse 0x94 14074000), Received (freqResponse 0x94 14074100)]) = None"
    by (simp add: exec_def handleResponse_freqResponse) (simp add: startup_def)
  then have "wavelogDebounceTimer (exec (startup demoRadio)
       [Received (freqResponse 0x94 14074000), Received (freqResponse 0x94 14074100)]) = None"
    using telemetry_needs_both_values [of demoRadio
       "[Received (freqResponse 0x94 14074000), Received (freqResponse 0x94 14074100)]"]
    unfolding Let_def by blast
  then show ?thesis
    using sent carried nomode by blast
qed


section \<open>Properties of the CW keyer\<close>

lemma message_E: "trim (toUpperCase ''E'') = ''E''"
  by (simp add: trim_def toUpperCase_def toUpperUnit_def isSpace_def Let_def)

lemma message_A: "trim (toUpperCase ''A'') = ''A''"
  by (simp add: trim_def toUpperCase_def toUpperUnit_def isSpace_def Let_def)


lemma morse_E: "lookupMorse (toUpperUnit (CHR ''E'')) = Some ''.''"
  by (simp add: lookupMorse_def MORSE_CODE_def toUpperUnit_def Let_def)

lemma morse_A: "lookupMorse (toUpperUnit (CHR ''A'')) = Some ''.-''"
  by (simp add: lookupMorse_def MORSE_CODE_def toUpperUnit_def Let_def)


lemma perform_fields:
  "trace (perform a s) = trace s @ [a]"
  "port (perform a s) = port s"
  "writer (perform a s) = writer s"
  "isConnected (perform a s) = isConnected s"
  "cwKeyLine (perform a s) = cwKeyLine s"
  "cwKeying (perform a s) = cwKeying s"
  "IC7300_ADDRESS (perform a s) = IC7300_ADDRESS s"
  by (simp_all add: perform_def)

lemma logMsg_fields:
  "trace (logMsg e s) = trace s"
  "port (logMsg e s) = port s"
  "writer (logMsg e s) = writer s"
  "isConnected (logMsg e s) = isConnected s"
  "cwKeyLine (logMsg e s) = cwKeyLine s"
  "cwKeying (logMsg e s) = cwKeying s"
  "IC7300_ADDRESS (logMsg e s) = IC7300_ADDRESS s"
  by (simp_all add: logMsg_def Let_def)

lemma keyLineSignal_fields:
  "keyLineSignal (perform a s) = keyLineSignal s"
  "keyLineSignal (logMsg e s) = keyLineSignal s"
  "keyLineSignal (s\<lparr> pttActive := p \<rparr>) = keyLineSignal s"
  "keyLineSignal (s\<lparr> cwKeying := k \<rparr>) = keyLineSignal s"
  "keyLineSignal (s\<lparr> sendCWBtnDisabled := x \<rparr>) = keyLineSignal s"
  "keyLineSignal (s\<lparr> stopCWBtnDisabled := y \<rparr>) = keyLineSignal s"
  by (simp_all add: keyLineSignal_def perform_fields logMsg_fields)

lemma keyDown_perform:
  assumes "port s" and "cwKeyLine s = ''dtr'' \<or> cwKeyLine s = ''rts''"
  shows "keyDown s = perform (SetSignals (keyLineSignal s) True) s"
  using assms by (auto simp add: keyDown_def keyLineSignal_def)

lemma keyUp_perform:
  assumes "port s" and "cwKeyLine s = ''dtr'' \<or> cwKeyLine s = ''rts''"
  shows "keyUp s = perform (SetSignals (keyLineSignal s) False) s"
  using assms by (auto simp add: keyUp_def keyLineSignal_def)

lemma sendCommand_perform:
  assumes "writer s" and "isConnected s"
  shows "snd (sendCommand c d s)
           = logMsg (LogTX (buildCommand (IC7300_ADDRESS s) c d))
               (perform (Write (buildCommand (IC7300_ADDRESS s) c d)) s)"
  using assms by (simp add: sendCommand_def Let_def)

lemma timing_20: "getCWTiming 20 = \<lparr> dot = 60, dash = 180, symbolSpace = 60,
    letterSpace = 180, wordSpace = 420 \<rparr>"
  by (simp add: getCWTiming_def Let_def)

text \<open>
  Claim C5. At 20 WPM the unit is 60 ms. Keying \<^verbatim>\<open>E\<close> (one dot) holds the key line high
  for 60 ms once and then waits the 180 ms letter gap before the session ends: the key is
  forced up, 100 ms pass and PTT is released. Keying \<^verbatim>\<open>A\<close> (dot, dash) gives a 60 ms
  pulse, a 60 ms gap, a 180 ms pulse and the 180 ms letter gap. The traces begin with
  PTT-on and the 100 ms settling delay.
\<close>

theorem keying_E_and_A_at_20_wpm:
  assumes "isConnected s" and "port s" and "writer s"
    and "cwKeyLine s = ''dtr'' \<or> cwKeyLine s = ''rts''"
    and "cwWPM s = Some 20"
  shows "dot (getCWTiming (cwSessionWPM s)) = 60
    \<and> trace (snd (sendCWMessage ''E'' s)) = trace s @
        [Write [0xFE, 0xFE, IC7300_ADDRESS s, 0xE0, 0x1C, 0x00, 0x01, 0xFD], Delay 100,
         SetSignals (keyLineSignal s) True, Delay 60, SetSignals (keyLineSignal s) False,
         Delay 180,
         SetSignals (keyLineSignal s) False, Delay 100,
         Write [0xFE, 0xFE, IC7300_ADDRESS s, 0xE0, 0x1C, 0x00, 0x00, 0xFD]]
    \<and> trace (snd (sendCWMessage ''A'' s)) = trace s @
        [Write [0xFE, 0xFE, IC7300_ADDRESS s, 0xE0, 0x1C, 0x00, 0x01, 0xFD], Delay 100,
         SetSignals (keyLineSignal s) True, Delay 60, SetSignals (keyLineSignal s) False,
         Delay 60,
         SetSignals (keyLineSignal s) True, Delay 180, SetSignals (keyLineSignal s) False,
         Delay 180,
         SetSignals (keyLineSignal s) False, Delay 100,
         Write [0xFE, 0xFE, IC7300_ADDRESS s, 0xE0, 0x1C, 0x00, 0x00, 0xFD]]"
proof -
  have w: "cwSessionWPM s = 20"
    using assms(5) by (simp add: cwSessionWPM_def)
  have e: "trace (snd (sendCWMessage ''E'' s)) = trace s @
        [Write [0xFE, 0xFE, IC7300_ADDRESS s, 0xE0, 0x1C, 0x00, 0x01, 0xFD], Delay 100,
         SetSignals (keyLineSignal s) True, Delay 60, SetSignals (keyLineSignal s) False,
         Delay 180,
         SetSignals (keyLineSignal s) False, Delay 100,
         Write [0xFE, 0xFE, IC7300_ADDRESS s, 0xE0, 0x1C, 0x00, 0x00, 0xFD]]"
    using assms(1-4)
    by (simp add: sendCWMessage_def message_E w timing_20 cwEnter_def cwTransmit_def
          cwLeave_def sendMorseChar_def morse_E Let_def perform_fields logMsg_fields
          keyLineSignal_fields keyDown_perform keyUp_perform sendCommand_perform
          buildCommand_def CONTROLLER_ADDRESS_def CMD_PTT_def)
  have a: "trace (snd (sendCWMessage ''A'' s)) = trace s @
        [Write [0xFE, 0xFE, IC7300_ADDRESS s, 0xE0, 0x1C, 0x00, 0x01, 0xFD], Delay 100,
         SetSignals (keyLineSignal s) True, Delay 60, SetSignals (keyLineSignal s) False,
         Delay 60,
         SetSignals (keyLineSignal s) True, Delay 180, SetSignals (keyLineSignal s) False,
         Delay 180,
         SetSignals (keyLineSignal s) False, Delay 100,
         Write [0xFE, 0xFE, IC7300_ADDRESS s, 0xE0, 0x1C, 0x00, 0x00, 0xFD]]"
    using assms(1-4)
    by (simp add: sendCWMessage_def message_A w timing_20 cwEnter_def cwTransmit_def
          cwLeave_def sendMorseChar_def morse_A Let_def perform_fields logMsg_fields
          keyLineSignal_fields keyDown_perform keyUp_perform sendCommand_perform
          buildCommand_def CONTROLLER_ADDRESS_def CMD_PTT_def)
  show ?thesis
    using e a by (simp add: w timing_20)
qed


theorem keying_E_and_A_at_20_wpm_witness:
  "trace (snd (sendCWMessage ''E'' demoRadio)) =
        [Write [0xFE, 0xFE, 0x94, 0xE0, 0x1C, 0x00, 0x01, 0xFD], Delay 100,
         SetSignals dataTerminalReady True, Delay 60, SetSignals dataTerminalReady False,
         Delay 180,
         SetSignals dataTerminalReady False, Delay 100,
         Write [0xFE, 0xFE, 0x94, 0xE0, 0x1C, 0x00, 0x00, 0xFD]]"
  using keying_E_and_A_at_20_wpm [of demoRadio]
  by (simp add: demoRadio_def keyLineSignal_def)



lemma cwEnter_fields:
  "trace (cwEnter m w s) = trace s"
  "writer (cwEnter m w s) = writer s"
  "isConnected (cwEnter m w s) = isConnected s"
  "cwKeying (cwEnter m w s) = True"
  "IC7300_ADDRESS (cwEnter m w s) = IC7300_ADDRESS s"
  by (simp_all add: cwEnter_def logMsg_def Let_def)



text \<open>
  Claim C6 says that a start made while a session is active fails with a Busy error and
  leaves the active session alone. \<^verbatim>\<open>sendCWMessage\<close> never reads \<open>cwKeying\<close> before it
  starts: in the state of a running session, with \<open>cwKeying\<close> set and the send button
  disabled, a call passes both guards and, before it first gives up control, has set
  \<open>cwKeying\<close> again and handed the PTT-on frame to the writer.
\<close>

theorem second_start_not_rejected:
  "cwKeying busyRadio \<and> sendCWBtnDisabled busyRadio
   \<and> fst (sendCWMessage_firstPart ''E'' busyRadio) = None
   \<and> cwKeying (snd (sendCWMessage_firstPart ''E'' busyRadio))
   \<and> trace (snd (sendCWMessage_firstPart ''E'' busyRadio))
       = [Write [0xFE, 0xFE, 0x94, 0xE0, 0x1C, 0x00, 0x01, 0xFD]]
   \<and> fst (sendCWMessage ''E'' busyRadio) = Completed"
proof -
  have ready: "isConnected busyRadio" "port busyRadio" "writer busyRadio"
    "cwKeying busyRadio" "sendCWBtnDisabled busyRadio" "trace busyRadio = []"
    "IC7300_ADDRESS busyRadio = 0x94"
    by (simp_all add: busyRadio_def demoRadio_def)
  have outcome: "fst (sendCWMessage ''E'' busyRadio) = Completed"
    using ready by (simp add: sendCWMessage_def message_E Let_def)
  have first: "sendCWMessage_firstPart ''E'' busyRadio
      = (None, perform (Write [0xFE, 0xFE, 0x94, 0xE0, 0x1C, 0x00, 0x01, 0xFD])
                 (cwEnter ''E'' (cwSessionWPM busyRadio) busyRadio))"
    using ready
    by (simp add: sendCWMessage_firstPart_def message_E Let_def cwEnter_fields
          buildCommand_def CONTROLLER_ADDRESS_def CMD_PTT_def)
  show ?thesis
    unfolding first using ready outcome
    by (simp add: perform_fields cwEnter_fields)
qed

theorem second_start_not_rejected_witness:
  "fst (sendCWMessage_firstPart ''E'' busyRadio) \<noteq> Some RejectedNotConnected
   \<and> fst (sendCWMessage_firstPart ''E'' busyRadio) \<noteq> Some RejectedEmptyMessage
   \<and> trace (snd (sendCWMessage_firstPart ''E'' busyRadio)) \<noteq> trace busyRadio"
  using second_start_not_rejected by (simp add: busyRadio_def demoRadio_def)




end
